theory Spec2Isabelle
  imports Complex_Main "HOL-Library.Sublist"
begin

section \<open>Go values: strings, runes, errors\<close>

text \<open>
  A Go string is a sequence of bytes: \<open>len(s)\<close> counts bytes and \<open>s[i]\<close> is the byte at
  index \<open>i\<close>. Isabelle's \<open>string\<close> is a list of 8-bit characters, so a Go string is a
  \<open>string\<close>, \<open>len\<close> is \<open>length\<close> and the value of a byte is \<open>of_char\<close>.
  A rune is a Unicode code point (Go's \<open>int32\<close>; only code points occur here).

  A function of the package returns a value, returns an error, or panics (an index out of
  range). An error carries its message, as \<open>err.Error()\<close> gives it; a panic carries the
  index and the length of the slice.
\<close>

type_synonym rune = nat

datatype failure = Error string | IndexOutOfRange nat nat

definition byte :: "char \<Rightarrow> nat" where
  "byte c = of_char c"

text \<open>
  The parts of Go's standard library that are tables or slow paths and that the package
  reaches only through \<open>unicode.ToUpper\<close>, \<open>unicode.ToLower\<close>, \<open>unicode.IsUpper\<close>,
  \<open>unicode.IsLower\<close>, \<open>unicode.IsDigit\<close> and \<open>strconv.Atoi\<close> are a parameter of the
  model: the case mappings beyond ASCII, the letter classes beyond ASCII, the digit class
  beyond Latin-1, the quoting of a string in a \<open>strconv\<close> error and \<open>strconv.ParseInt\<close>
  on strings of 19 bytes and more. So are two parts of package \<open>math\<close>: the reduction of
  an argument of \<open>2 ^ 29\<close> or more in \<open>math.Sin\<close> and \<open>math.Cos\<close>, and \<open>math.Atan2\<close> on two
  \<open>float64\<close> numbers. Every theorem below holds for every such parameter.
\<close>

record stdlib =
  upperOf :: "rune \<Rightarrow> rune"
  lowerOf :: "rune \<Rightarrow> rune"
  isUpperHigh :: "rune \<Rightarrow> bool"
  isLowerHigh :: "rune \<Rightarrow> bool"
  isDigitHigh :: "rune \<Rightarrow> bool"
  quoteOf :: "string \<Rightarrow> string"
  parseIntSlow :: "string \<Rightarrow> failure + int"
  trigReduce :: "real \<Rightarrow> nat \<times> real"
  atan2Of :: "real \<Rightarrow> real \<Rightarrow> real"

subsection \<open>UTF-8: the conversions \<open>[]rune(s)\<close> and \<open>string(runes)\<close>\<close>

definition RuneError :: rune where
  "RuneError = 0xFFFD"

text \<open>The length of the sequence a first byte announces; 0 for a byte that starts none.\<close>

definition seqLen :: "nat \<Rightarrow> nat" where
  "seqLen b0 =
     (if b0 < 0x80 then 1
      else if b0 < 0xC2 then 0
      else if b0 < 0xE0 then 2
      else if b0 < 0xF0 then 3
      else if b0 < 0xF5 then 4
      else 0)"

definition acceptLo :: "nat \<Rightarrow> nat" where
  "acceptLo b0 = (if b0 = 0xE0 then 0xA0 else if b0 = 0xF0 then 0x90 else 0x80)"

definition acceptHi :: "nat \<Rightarrow> nat" where
  "acceptHi b0 = (if b0 = 0xED then 0x9F else if b0 = 0xF4 then 0x8F else 0xBF)"

text \<open>
  \<open>utf8.DecodeRuneInString\<close>: the first rune of the string and its width in bytes. A byte
  that starts no valid sequence decodes to \<open>RuneError\<close> with width 1.
\<close>

definition decodeRune :: "string \<Rightarrow> rune \<times> nat" where
  "decodeRune s =
     (if length s < 1 then (RuneError, 0)
      else let b0 = byte (s ! 0); sz = seqLen b0 in
        if sz = 1 then (b0, 1)
        else if sz = 0 then (RuneError, 1)
        else if length s < sz then (RuneError, 1)
        else let b1 = byte (s ! 1) in
          if b1 < acceptLo b0 \<or> acceptHi b0 < b1 then (RuneError, 1)
          else if sz \<le> 2 then ((b0 mod 32) * 64 + b1 mod 64, 2)
          else let b2 = byte (s ! 2) in
            if b2 < 0x80 \<or> 0xBF < b2 then (RuneError, 1)
            else if sz \<le> 3 then ((b0 mod 16) * 4096 + (b1 mod 64) * 64 + b2 mod 64, 3)
            else let b3 = byte (s ! 3) in
              if b3 < 0x80 \<or> 0xBF < b3 then (RuneError, 1)
              else ((b0 mod 8) * 262144 + (b1 mod 64) * 4096 + (b2 mod 64) * 64 + b3 mod 64, 4))"

text \<open>\<open>[]rune(s)\<close>: decode rune after rune.\<close>

fun stringToRunes :: "string \<Rightarrow> rune list" where
  "stringToRunes [] = []"
| "stringToRunes (c # cs) =
     fst (decodeRune (c # cs)) # stringToRunes (drop (snd (decodeRune (c # cs)) - 1) cs)"

text \<open>
  The UTF-8 encoding of one rune; a surrogate or a value beyond \<open>0x10FFFF\<close> is encoded as
  \<open>RuneError\<close>.
\<close>

definition encodeRune :: "rune \<Rightarrow> string" where
  "encodeRune r =
     (if r \<le> 0x7F then [char_of r]
      else if r \<le> 0x7FF then [char_of (0xC0 + r div 64), char_of (0x80 + r mod 64)]
      else if 0x10FFFF < r \<or> (0xD800 \<le> r \<and> r \<le> 0xDFFF) then [CHR 0xEF, CHR 0xBF, CHR 0xBD]
      else if r \<le> 0xFFFF then
        [char_of (0xE0 + r div 4096), char_of (0x80 + (r div 64) mod 64), char_of (0x80 + r mod 64)]
      else
        [char_of (0xF0 + r div 262144), char_of (0x80 + (r div 4096) mod 64),
         char_of (0x80 + (r div 64) mod 64), char_of (0x80 + r mod 64)])"

text \<open>\<open>string(runes)\<close>.\<close>

definition runesToString :: "rune list \<Rightarrow> string" where
  "runesToString rs = concat (map encodeRune rs)"

subsection \<open>Package \<open>unicode\<close>\<close>

definition ToUpper :: "stdlib \<Rightarrow> rune \<Rightarrow> rune" where
  "ToUpper lib r =
     (if r \<le> 0x7F then (if 97 \<le> r \<and> r \<le> 122 then r - 32 else r) else upperOf lib r)"

definition ToLower :: "stdlib \<Rightarrow> rune \<Rightarrow> rune" where
  "ToLower lib r =
     (if r \<le> 0x7F then (if 65 \<le> r \<and> r \<le> 90 then r + 32 else r) else lowerOf lib r)"

definition IsUpper :: "stdlib \<Rightarrow> rune \<Rightarrow> bool" where
  "IsUpper lib r = (if r \<le> 0x7F then 65 \<le> r \<and> r \<le> 90 else isUpperHigh lib r)"

definition IsLower :: "stdlib \<Rightarrow> rune \<Rightarrow> bool" where
  "IsLower lib r = (if r \<le> 0x7F then 97 \<le> r \<and> r \<le> 122 else isLowerHigh lib r)"

definition IsDigit :: "stdlib \<Rightarrow> rune \<Rightarrow> bool" where
  "IsDigit lib r = (if r \<le> 0xFF then 48 \<le> r \<and> r \<le> 57 else isDigitHigh lib r)"

subsection \<open>Formatting and parsing numbers\<close>

text \<open>The verb \<open>%d\<close> of \<open>fmt\<close> on an \<open>int\<close>.\<close>

fun digitsOf :: "nat \<Rightarrow> string" where
  "digitsOf n =
     (if n < 10 then [char_of (48 + n)] else digitsOf (n div 10) @ [char_of (48 + n mod 10)])"

definition fmtInt :: "int \<Rightarrow> string" where
  "fmtInt i = (if i < 0 then CHR ''-'' # digitsOf (nat (- i)) else digitsOf (nat i))"

text \<open>
  \<open>strconv.Atoi\<close>. A string of 1 to 18 bytes takes the fast path: an optional sign, then
  decimal digits only. Every other string takes \<open>ParseInt\<close>.
\<close>

fun atoiDigits :: "string \<Rightarrow> int \<Rightarrow> int option" where
  "atoiDigits [] n = Some n"
| "atoiDigits (ch # rest) n =
     (if byte ch < 48 \<or> 57 < byte ch then None
      else atoiDigits rest (n * 10 + int (byte ch - 48)))"

definition syntaxError :: "stdlib \<Rightarrow> string \<Rightarrow> failure" where
  "syntaxError lib s0 = Error (''strconv.Atoi: parsing '' @ quoteOf lib s0 @ '': invalid syntax'')"

definition Atoi :: "stdlib \<Rightarrow> string \<Rightarrow> failure + int" where
  "Atoi lib s0 =
     (if 0 < length s0 \<and> length s0 < 19 then
        (let s = (if s0 ! 0 = CHR ''-'' \<or> s0 ! 0 = CHR ''+'' then tl s0 else s0) in
         if length s < 1 then Inl (syntaxError lib s0)
         else case atoiDigits s 0 of
           None \<Rightarrow> Inl (syntaxError lib s0)
         | Some n \<Rightarrow> Inr (if s0 ! 0 = CHR ''-'' then - n else n))
      else parseIntSlow lib s0)"

section \<open>The locator: normalisation and validation\<close>

text \<open>
  An assignment \<open>runes[i] = f(runes[i])\<close> and a read \<open>runes[i]\<close>: Go panics when the index
  is not below the length of the slice.
\<close>

definition updateAt :: "(rune \<Rightarrow> rune) \<Rightarrow> nat \<Rightarrow> rune list \<Rightarrow> failure + rune list" where
  "updateAt f i rs =
     (if i < length rs then Inr (rs[i := f (rs ! i)]) else Inl (IndexOutOfRange i (length rs)))"

definition readAt :: "rune list \<Rightarrow> nat \<Rightarrow> failure + rune" where
  "readAt rs i = (if i < length rs then Inr (rs ! i) else Inl (IndexOutOfRange i (length rs)))"

definition normalizeGridSquare :: "stdlib \<Rightarrow> string \<Rightarrow> failure + string" where
  "normalizeGridSquare lib s =
     (if length s \<noteq> 6 then Inr s
      else
        case updateAt (ToUpper lib) 0 (stringToRunes s) of Inl e \<Rightarrow> Inl e | Inr r0 \<Rightarrow>
        case updateAt (ToUpper lib) 1 r0 of Inl e \<Rightarrow> Inl e | Inr r1 \<Rightarrow>
        case updateAt (ToLower lib) 4 r1 of Inl e \<Rightarrow> Inl e | Inr r4 \<Rightarrow>
        case updateAt (ToLower lib) 5 r4 of Inl e \<Rightarrow> Inl e | Inr r5 \<Rightarrow>
        Inr (runesToString r5))"

text \<open>
  The position checks. Each returns a truth value or an error (position out of range); the
  position is a Go \<open>int\<close>.
\<close>

definition isUppercaseAtPosition :: "stdlib \<Rightarrow> string \<Rightarrow> int \<Rightarrow> failure + bool" where
  "isUppercaseAtPosition lib s pos =
     (if pos < 0 \<or> pos \<ge> int (length s) then
        Inl (Error (''position '' @ fmtInt pos @ '' is out of range for string '' @ [CHR 0x27] @ s @ [CHR 0x27]))
      else Inr (IsUpper lib (byte (s ! nat pos))))"

definition isUpperARAtPosition :: "stdlib \<Rightarrow> string \<Rightarrow> int \<Rightarrow> failure + bool" where
  "isUpperARAtPosition lib s pos =
     (case isUppercaseAtPosition lib s pos of
        Inl e \<Rightarrow> Inl e
      | Inr ok \<Rightarrow>
          if \<not> ok then Inr ok
          else let c = byte (s ! nat pos) in Inr (65 \<le> c \<and> c \<le> 82))"

definition isLowercaseAtPosition :: "stdlib \<Rightarrow> string \<Rightarrow> int \<Rightarrow> failure + bool" where
  "isLowercaseAtPosition lib s pos =
     (if pos < 0 \<or> pos \<ge> int (length s) then
        Inl (Error (''position '' @ fmtInt pos @ '' out of bounds for string of length ''
                    @ fmtInt (int (length s))))
      else Inr (IsLower lib (byte (s ! nat pos))))"

definition isLowerAXAtPosition :: "stdlib \<Rightarrow> string \<Rightarrow> int \<Rightarrow> failure + bool" where
  "isLowerAXAtPosition lib s pos =
     (case isLowercaseAtPosition lib s pos of
        Inl e \<Rightarrow> Inl e
      | Inr ok \<Rightarrow>
          if \<not> ok then Inr ok
          else let c = byte (s ! nat pos) in Inr (97 \<le> c \<and> c \<le> 120))"

definition isDigitAtPosition :: "stdlib \<Rightarrow> string \<Rightarrow> int \<Rightarrow> failure + bool" where
  "isDigitAtPosition lib input position =
     (if position < 0 \<or> position \<ge> int (length input) then
        Inl (Error (''position '' @ fmtInt position @ '' is out of range for string length ''
                    @ fmtInt (int (length input))))
      else Inr (IsDigit lib (byte (input ! nat position))))"

text \<open>The table of \<open>validateInput\<close>: position, check, message, in the order of the source.\<close>

type_synonym validator = "int \<times> (stdlib \<Rightarrow> string \<Rightarrow> int \<Rightarrow> failure + bool) \<times> string"

definition validators :: "validator list" where
  "validators =
     [(0, isUpperARAtPosition, ''first character must be A-R''),
      (1, isUpperARAtPosition, ''second character must be A-R''),
      (2, isDigitAtPosition, ''third character must be a digit''),
      (3, isDigitAtPosition, ''fourth character must be a digit''),
      (4, isLowerAXAtPosition, ''fifth character must be a-x''),
      (5, isLowerAXAtPosition, ''sixth character must be a-x'')]"

text \<open>The loop over the table: the first check that fails or errs ends it.\<close>

fun runValidators :: "stdlib \<Rightarrow> string \<Rightarrow> validator list \<Rightarrow> failure option" where
  "runValidators lib str [] = None"
| "runValidators lib str ((position, validate, errMsg) # vs) =
     (case validate lib str position of
        Inl err \<Rightarrow> Some err
      | Inr ok \<Rightarrow>
          if \<not> ok then Some (Error (''invalid gridsquare format: '' @ str @ '' ('' @ errMsg @ '')''))
          else runValidators lib str vs)"

definition validateInput :: "stdlib \<Rightarrow> string \<Rightarrow> failure option" where
  "validateInput lib str =
     (if length str \<noteq> 6 then
        Some (Error (''invalid gridsquare format: '' @ str @ '' (must be 6 characters)''))
      else runValidators lib str validators)"

section \<open>Numbers: \<open>float64\<close> and package \<open>math\<close>\<close>

text \<open>
  In the coordinates and the bearings a \<open>float64\<close> is modelled as a real number and every
  arithmetic operation as the exact operation on the reals: the rounding of each machine
  operation, the infinities, the signed zero and NaN are outside that part of the model.
  There \<open>math.Sin\<close>, \<open>math.Cos\<close> and \<open>math.Pi\<close> are \<open>sin\<close>, \<open>cos\<close> and \<open>pi\<close>. The
  distance functions are modelled on \<open>float64\<close> as the machine computes it, further below.

  \<open>math.Round\<close> rounds to the nearest integer, halves away from zero; \<open>math.Ceil\<close> is the
  least integer not below; \<open>math.Mod x y\<close> is the remainder of the truncated quotient (it
  has the sign of \<open>x\<close>), for \<open>y\<close> other than 0; \<open>math.Atan2\<close> follows the cases of Go's
  implementation.
\<close>

definition math_Round :: "real \<Rightarrow> real" where
  "math_Round x = (if x < 0 then of_int \<lceil>x - 1 / 2\<rceil> else of_int \<lfloor>x + 1 / 2\<rfloor>)"

definition math_Ceil :: "real \<Rightarrow> real" where
  "math_Ceil x = of_int \<lceil>x\<rceil>"

definition math_Mod :: "real \<Rightarrow> real \<Rightarrow> real" where
  "math_Mod x y = x - y * (if x / y < 0 then of_int \<lceil>x / y\<rceil> else of_int \<lfloor>x / y\<rfloor>)"

definition math_Atan2 :: "real \<Rightarrow> real \<Rightarrow> real" where
  "math_Atan2 y x =
     (if y = 0 then (if x \<ge> 0 then 0 else pi)
      else if x = 0 then (if y < 0 then - (pi / 2) else pi / 2)
      else let q = arctan (y / x) in
        if x < 0 then (if q \<le> 0 then q + pi else q - pi) else q)"

subsection \<open>The constants of the package\<close>

definition rounding :: real where
  "rounding = 100000"

definition earthRad :: real where
  "earthRad = 6371.0"

definition kmToMiles :: real where
  "kmToMiles = 0.621371"

definition asciiUpperA :: real where
  "asciiUpperA = 65.0"

definition asciiLowerA :: real where
  "asciiLowerA = 97.0"

definition fieldWidth :: real where
  "fieldWidth = 20.0"

definition fieldHeight :: real where
  "fieldHeight = 10.0"

definition squareWidth :: real where
  "squareWidth = 2.0"

definition squareHeight :: real where
  "squareHeight = 1.0"

definition subsquareWidth :: real where
  "subsquareWidth = 5.0 / 60.0"

definition subsquareHeight :: real where
  "subsquareHeight = 2.5 / 60.0"

section \<open>\<open>float64\<close> as the machine computes it\<close>

text \<open>
  In the distance functions the rounding of the machine decides the result: the square root
  of \<open>1 - a\<close> is taken, and \<open>a\<close> is a sum of products of sines and cosines that is 1 or
  close to 1 for opposite points of the globe. There a \<open>float64\<close> is modelled as the
  machine has it: a number or NaN, every operation rounded to the nearest \<open>float64\<close>, ties
  to the even one (IEEE 754 binary64), no two operations fused (as Go compiles for amd64).
  The infinities, the signed zero, overflow and underflow are outside the model; no value of
  the distance functions comes near them.
\<close>

datatype float64 = Num real | NaN

text \<open>
  The nearest \<open>float64\<close> of a real: the real is scaled by the power of two that brings it
  between \<open>2 ^ 52\<close> and \<open>2 ^ 53\<close>, rounded to an integer (a half goes to the even
  neighbour) and scaled back.
\<close>

definition roundHalfEven :: "real \<Rightarrow> int" where
  "roundHalfEven y =
     (if y - of_int \<lfloor>y\<rfloor> < 1 / 2 then \<lfloor>y\<rfloor>
      else if 1 / 2 < y - of_int \<lfloor>y\<rfloor> then \<lfloor>y\<rfloor> + 1
      else if even \<lfloor>y\<rfloor> then \<lfloor>y\<rfloor> else \<lfloor>y\<rfloor> + 1)"

definition fl64 :: "real \<Rightarrow> real" where
  "fl64 x =
     (if x = 0 then 0
      else of_int (roundHalfEven (x / 2 powr (of_int (\<lfloor>log 2 \<bar>x\<bar>\<rfloor> - 52))))
           * 2 powr (of_int (\<lfloor>log 2 \<bar>x\<bar>\<rfloor> - 52)))"

text \<open>The four operations on numbers, and on \<open>float64\<close>: a NaN operand gives NaN.\<close>

definition add64 :: "real \<Rightarrow> real \<Rightarrow> real" where
  "add64 x y = fl64 (x + y)"

definition sub64 :: "real \<Rightarrow> real \<Rightarrow> real" where
  "sub64 x y = fl64 (x - y)"

definition mul64 :: "real \<Rightarrow> real \<Rightarrow> real" where
  "mul64 x y = fl64 (x * y)"

definition div64 :: "real \<Rightarrow> real \<Rightarrow> real" where
  "div64 x y = fl64 (x / y)"

definition lift1 :: "(real \<Rightarrow> real) \<Rightarrow> float64 \<Rightarrow> float64" where
  "lift1 f a = (case a of Num x \<Rightarrow> Num (f x) | NaN \<Rightarrow> NaN)"

definition lift2 :: "(real \<Rightarrow> real \<Rightarrow> real) \<Rightarrow> float64 \<Rightarrow> float64 \<Rightarrow> float64" where
  "lift2 f a b =
     (case a of
        Num x \<Rightarrow> (case b of Num y \<Rightarrow> Num (f x y) | NaN \<Rightarrow> NaN)
      | NaN \<Rightarrow> NaN)"

definition fadd :: "float64 \<Rightarrow> float64 \<Rightarrow> float64" where
  "fadd = lift2 add64"

definition fsub :: "float64 \<Rightarrow> float64 \<Rightarrow> float64" where
  "fsub = lift2 sub64"

definition fmul :: "float64 \<Rightarrow> float64 \<Rightarrow> float64" where
  "fmul = lift2 mul64"

definition fdiv :: "float64 \<Rightarrow> float64 \<Rightarrow> float64" where
  "fdiv = lift2 div64"

text \<open>
  A constant of the source is the \<open>float64\<close> nearest to its decimal. \<open>math.Pi\<close> is the
  decimal below; \<open>4 / Pi\<close> is a constant expression, computed exactly and then rounded.
\<close>

definition float64Of :: "real \<Rightarrow> float64" where
  "float64Of r = Num (fl64 r)"

definition PiLiteral :: real where
  "PiLiteral = 3.14159265358979323846264338327950288419716939937510582097494459"

definition Pi64 :: real where
  "Pi64 = fl64 PiLiteral"

subsection \<open>\<open>math.Sin\<close> and \<open>math.Cos\<close>\<close>

text \<open>
  Go computes the sine and the cosine in Go itself (the Cephes routines), on every
  architecture but s390x: the argument is reduced to an octant, with \<open>Pi/4\<close> split in three
  parts, and a polynomial is evaluated. An argument of \<open>2 ^ 29\<close> or more is reduced by
  another routine, which is a parameter of the model.
\<close>

definition sinCoeff :: "real list" where
  "sinCoeff = map fl64
     [1.58962301576546568060 / 10 ^ 10,
      - 2.50507477628578072866 / 10 ^ 8,
      2.75573136213857245213 / 10 ^ 6,
      - 1.98412698295895385996 / 10 ^ 4,
      8.33333333332211858878 / 10 ^ 3,
      - 1.66666666666666307295 / 10]"

definition cosCoeff :: "real list" where
  "cosCoeff = map fl64
     [- 1.13585365213876817300 / 10 ^ 11,
      2.08757008419747316778 / 10 ^ 9,
      - 2.75573141792967388112 / 10 ^ 7,
      2.48015872888517045348 / 10 ^ 5,
      - 1.38888888888730564116 / 10 ^ 3,
      4.16666666666665929218 / 10 ^ 2]"

definition PI4A :: real where
  "PI4A = fl64 (7.85398125648498535156 / 10)"

definition PI4B :: real where
  "PI4B = fl64 (3.77489470793079817668 / 10 ^ 8)"

definition PI4C :: real where
  "PI4C = fl64 (2.69515142907905952645 / 10 ^ 15)"

definition fourOverPi :: real where
  "fourOverPi = fl64 (4 / PiLiteral)"

definition reduceThreshold :: real where
  "reduceThreshold = 2 ^ 29"

text \<open>
  The polynomial \<open>((((((c[0]*zz)+c[1])*zz+c[2])*zz+c[3])*zz+c[4])*zz+c[5])\<close> and the two
  results \<open>z + z*zz*p\<close> and \<open>1.0 - 0.5*zz + zz*zz*p\<close>.
\<close>

definition trigPoly :: "real list \<Rightarrow> real \<Rightarrow> real" where
  "trigPoly c zz =
     add64 (mul64 (add64 (mul64 (add64 (mul64 (add64 (mul64 (add64 (mul64 (c ! 0) zz) (c ! 1)) zz)
       (c ! 2)) zz) (c ! 3)) zz) (c ! 4)) zz) (c ! 5)"

definition sinKernel :: "real \<Rightarrow> real \<Rightarrow> real" where
  "sinKernel z zz = add64 z (mul64 (mul64 z zz) (trigPoly sinCoeff zz))"

definition cosKernel :: "real \<Rightarrow> real \<Rightarrow> real" where
  "cosKernel z zz =
     add64 (sub64 1.0 (mul64 0.5 zz)) (mul64 (mul64 zz zz) (trigPoly cosCoeff zz))"

text \<open>
  The reduction of an argument that is not negative: the octant \<open>j\<close> (modulo 8) and the
  remainder \<open>z\<close>.
\<close>

definition trigOctant :: "stdlib \<Rightarrow> real \<Rightarrow> nat \<times> real" where
  "trigOctant lib x =
     (if x \<ge> reduceThreshold then trigReduce lib x
      else
        let j = nat \<lfloor>mul64 x fourOverPi\<rfloor>;
            j = (if odd j then j + 1 else j);
            y = real j;
            z = sub64 (sub64 (sub64 x (mul64 y PI4A)) (mul64 y PI4B)) (mul64 y PI4C)
        in (j mod 8, z))"

definition sin64 :: "stdlib \<Rightarrow> real \<Rightarrow> real" where
  "sin64 lib x =
     (if x = 0 then x
      else
        let sign = (x < 0);
            (j, z) = trigOctant lib \<bar>x\<bar>;
            sign = (if j > 3 then \<not> sign else sign);
            j = (if j > 3 then j - 4 else j);
            zz = mul64 z z;
            y = (if j = 1 \<or> j = 2 then cosKernel z zz else sinKernel z zz)
        in if sign then - y else y)"

definition cos64 :: "stdlib \<Rightarrow> real \<Rightarrow> real" where
  "cos64 lib x =
     (let (j, z) = trigOctant lib \<bar>x\<bar>;
          sign = (j > 3);
          j = (if j > 3 then j - 4 else j);
          sign = (if j > 1 then \<not> sign else sign);
          zz = mul64 z z;
          y = (if j = 1 \<or> j = 2 then sinKernel z zz else cosKernel z zz)
      in if sign then - y else y)"

definition math_Sin :: "stdlib \<Rightarrow> float64 \<Rightarrow> float64" where
  "math_Sin lib = lift1 (sin64 lib)"

definition math_Cos :: "stdlib \<Rightarrow> float64 \<Rightarrow> float64" where
  "math_Cos lib = lift1 (cos64 lib)"

subsection \<open>\<open>math.Sqrt\<close>, \<open>math.Atan2\<close> and \<open>math.Ceil\<close> on \<open>float64\<close>\<close>

text \<open>
  The square root of a negative number is NaN; of another number it is the nearest
  \<open>float64\<close> of the root. \<open>math.Atan2\<close> of a NaN is NaN; on two numbers it is a parameter
  of the model. \<open>math.Ceil\<close> of NaN is NaN.
\<close>

definition math_Sqrt :: "float64 \<Rightarrow> float64" where
  "math_Sqrt a = (case a of Num x \<Rightarrow> (if x < 0 then NaN else Num (fl64 (sqrt x))) | NaN \<Rightarrow> NaN)"

definition math_Atan2_64 :: "stdlib \<Rightarrow> float64 \<Rightarrow> float64 \<Rightarrow> float64" where
  "math_Atan2_64 lib = lift2 (atan2Of lib)"

definition math_Ceil64 :: "float64 \<Rightarrow> float64" where
  "math_Ceil64 = lift1 math_Ceil"

definition toRadians64 :: "float64 \<Rightarrow> float64" where
  "toRadians64 degrees = fdiv (fmul degrees (Num Pi64)) (Num 180.0)"

section \<open>Coordinates of a locator\<close>

definition LatitudeFromGridSquare :: "stdlib \<Rightarrow> string \<Rightarrow> failure + real" where
  "LatitudeFromGridSquare lib gridSquare =
     (case normalizeGridSquare lib gridSquare of Inl e \<Rightarrow> Inl e | Inr normalized \<Rightarrow>
      case validateInput lib normalized of Some err \<Rightarrow> Inl err | None \<Rightarrow>
      let runes = stringToRunes normalized in
      case readAt runes 1 of Inl e \<Rightarrow> Inl e | Inr r1 \<Rightarrow>
      let fieldLat = real r1 - asciiUpperA;
          fieldLatDegrees = fieldLat * fieldHeight in
      case readAt runes 3 of Inl e \<Rightarrow> Inl e | Inr r3 \<Rightarrow>
      case Atoi lib (encodeRune r3) of Inl err \<Rightarrow> Inl err | Inr squareNum \<Rightarrow>
      let squareLatDegrees = real_of_int squareNum * squareHeight in
      case readAt runes 5 of Inl e \<Rightarrow> Inl e | Inr r5 \<Rightarrow>
      let subsquareLat = real r5 - asciiLowerA;
          subsquareLatDegrees = subsquareLat * subsquareHeight;
          centerOffset = subsquareHeight / 2.0;
          latitude = fieldLatDegrees + squareLatDegrees + subsquareLatDegrees + centerOffset - 90.0
      in Inr (math_Round (latitude * rounding) / rounding))"

definition LongitudeFromGridSquare :: "stdlib \<Rightarrow> string \<Rightarrow> failure + real" where
  "LongitudeFromGridSquare lib gridSquare =
     (case normalizeGridSquare lib gridSquare of Inl e \<Rightarrow> Inl e | Inr normalized \<Rightarrow>
      case validateInput lib normalized of Some err \<Rightarrow> Inl err | None \<Rightarrow>
      let runes = stringToRunes normalized in
      case readAt runes 0 of Inl e \<Rightarrow> Inl e | Inr r0 \<Rightarrow>
      let fieldLong = real r0 - asciiUpperA;
          fieldLongDegrees = fieldLong * fieldWidth in
      case readAt runes 2 of Inl e \<Rightarrow> Inl e | Inr r2 \<Rightarrow>
      case Atoi lib (encodeRune r2) of Inl err \<Rightarrow> Inl err | Inr squareNum \<Rightarrow>
      let squareLongDegrees = real_of_int squareNum * squareWidth in
      case readAt runes 4 of Inl e \<Rightarrow> Inl e | Inr r4 \<Rightarrow>
      let subsquareLong = real r4 - asciiLowerA;
          subsquareLongDegrees = subsquareLong * subsquareWidth;
          centerOffset = subsquareWidth / 2.0;
          longitude = fieldLongDegrees + squareLongDegrees + subsquareLongDegrees + centerOffset - 180.0
      in Inr (math_Round (longitude * rounding) / rounding))"

record gridSquareCoordinates =
  Latitude :: real
  Longitude :: real

definition extractCoordinates :: "stdlib \<Rightarrow> string \<Rightarrow> failure + gridSquareCoordinates" where
  "extractCoordinates lib gridSquare =
     (case LatitudeFromGridSquare lib gridSquare of Inl err \<Rightarrow> Inl err | Inr lat \<Rightarrow>
      case LongitudeFromGridSquare lib gridSquare of Inl err \<Rightarrow> Inl err | Inr long \<Rightarrow>
      Inr \<lparr>Latitude = lat, Longitude = long\<rparr>)"

section \<open>Bearing and distance\<close>

definition toRadians :: "real \<Rightarrow> real" where
  "toRadians degrees = degrees * pi / 180.0"

definition toDegrees :: "real \<Rightarrow> real" where
  "toDegrees radians = radians * 180.0 / pi"

definition CalculateBearing :: "real \<Rightarrow> real \<Rightarrow> real \<Rightarrow> real \<Rightarrow> real" where
  "CalculateBearing lat1 lon1 lat2 lon2 =
     (let lat1Rad = toRadians lat1;
          lon1Rad = toRadians lon1;
          lat2Rad = toRadians lat2;
          lon2Rad = toRadians lon2;
          dLon = lon2Rad - lon1Rad;
          y = sin dLon * cos lat2Rad;
          x = cos lat1Rad * sin lat2Rad - sin lat1Rad * cos lat2Rad * cos dLon;
          initialBearing = toDegrees (math_Atan2 y x);
          initialBearing = (if initialBearing < 0 then initialBearing + 360 else initialBearing)
      in math_Round (initialBearing * 10) / 10)"

text \<open>
  \<open>fmt.Errorf("...: %w", err)\<close> on a returned error puts the text before the error's
  message. A panic is not a returned error: it passes through unchanged.
\<close>

definition wrapError :: "string \<Rightarrow> failure \<Rightarrow> failure" where
  "wrapError what e =
     (case e of Error msg \<Rightarrow> Error (what @ msg) | IndexOutOfRange i n \<Rightarrow> IndexOutOfRange i n)"

definition GetShortPathBearing :: "stdlib \<Rightarrow> string \<Rightarrow> string \<Rightarrow> failure + real" where
  "GetShortPathBearing lib localGridSquare remoteGridSquare =
     (case extractCoordinates lib localGridSquare of
        Inl err \<Rightarrow> Inl (wrapError ''invalid local grid square: '' err)
      | Inr localCoords \<Rightarrow>
     (case extractCoordinates lib remoteGridSquare of
        Inl err \<Rightarrow> Inl (wrapError ''invalid remote grid square: '' err)
      | Inr remoteCoords \<Rightarrow>
          Inr (CalculateBearing (Latitude localCoords) (Longitude localCoords)
                 (Latitude remoteCoords) (Longitude remoteCoords))))"

definition GetLongPathBearing :: "stdlib \<Rightarrow> string \<Rightarrow> string \<Rightarrow> failure + real" where
  "GetLongPathBearing lib localGridSquare remoteGridSquare =
     (case GetShortPathBearing lib localGridSquare remoteGridSquare of
        Inl err \<Rightarrow> Inl (wrapError ''error calculating short path bearing: '' err)
      | Inr shortPathBearing \<Rightarrow>
          let longPathBearing = math_Mod (shortPathBearing + 180) 360;
              longPathBearing = (if longPathBearing < 0 then longPathBearing + 360 else longPathBearing)
          in Inr (math_Round (longPathBearing * 10) / 10))"

text \<open>
  The distance functions, on \<open>float64\<close> as the machine computes it. The \<open>float64\<close> the
  program holds for a coordinate is the one nearest to the real of the model: the last
  operation of \<open>LatitudeFromGridSquare\<close> and \<open>LongitudeFromGridSquare\<close> is the division of an
  integral value by 100000, which the machine rounds to nearest. \<open>toRadians64\<close> is
  \<open>toRadians\<close> with the rounding of its two operations. The circumference
  \<open>2 * math.Pi * earthRad\<close> is a constant expression, computed exactly and then rounded.
\<close>

definition GetShortPathDistance :: "stdlib \<Rightarrow> string \<Rightarrow> string \<Rightarrow> failure + float64 \<times> float64" where
  "GetShortPathDistance lib localGridSquare remoteGridSquare =
     (case extractCoordinates lib localGridSquare of
        Inl err \<Rightarrow> Inl (wrapError ''invalid local grid square: '' err)
      | Inr localCoords \<Rightarrow>
     (case extractCoordinates lib remoteGridSquare of
        Inl err \<Rightarrow> Inl (wrapError ''invalid remote grid square: '' err)
      | Inr remoteCoords \<Rightarrow>
          let localLongRad = toRadians64 (float64Of (Longitude localCoords));
              localLatRad = toRadians64 (float64Of (Latitude localCoords));
              remoteLongRad = toRadians64 (float64Of (Longitude remoteCoords));
              remoteLatRad = toRadians64 (float64Of (Latitude remoteCoords));
              dLat = fsub remoteLatRad localLatRad;
              dLon = fsub remoteLongRad localLongRad;
              a = fadd (fmul (math_Sin lib (fdiv dLat (Num 2))) (math_Sin lib (fdiv dLat (Num 2))))
                       (fmul (fmul (fmul (math_Cos lib localLatRad) (math_Cos lib remoteLatRad))
                                   (math_Sin lib (fdiv dLon (Num 2))))
                             (math_Sin lib (fdiv dLon (Num 2))));
              c = fmul (Num 2) (math_Atan2_64 lib (math_Sqrt a) (math_Sqrt (fsub (Num 1) a)));
              distanceKm = math_Ceil64 (fmul (Num earthRad) c);
              distanceMiles = math_Ceil64 (fmul distanceKm (float64Of kmToMiles))
          in Inr (distanceKm, distanceMiles)))"

definition GetLongPathDistance :: "stdlib \<Rightarrow> string \<Rightarrow> string \<Rightarrow> failure + float64 \<times> float64" where
  "GetLongPathDistance lib localGridSquare remoteGridSquare =
     (case GetShortPathDistance lib localGridSquare remoteGridSquare of
        Inl err \<Rightarrow> Inl err
      | Inr (shortPathKm, shortPathMiles) \<Rightarrow>
          let earthCircumferenceKm = float64Of (2 * PiLiteral * earthRad);
              longPathKm = math_Ceil64 (fsub earthCircumferenceKm shortPathKm);
              longPathMiles = math_Ceil64 (fmul longPathKm (float64Of kmToMiles))
          in Inr (longPathKm, longPathMiles))"

section \<open>The specification's notions\<close>

text \<open>
  The grammar of a locator as the specification gives it: six bytes, the first two letters
  A to R, then two digits, then two letters a to x, the letters in either case.
\<close>

definition letterAR :: "char \<Rightarrow> bool" where
  "letterAR c = (65 \<le> byte c \<and> byte c \<le> 82 \<or> 97 \<le> byte c \<and> byte c \<le> 114)"

definition letterAX :: "char \<Rightarrow> bool" where
  "letterAX c = (65 \<le> byte c \<and> byte c \<le> 88 \<or> 97 \<le> byte c \<and> byte c \<le> 120)"

definition digit09 :: "char \<Rightarrow> bool" where
  "digit09 c = (48 \<le> byte c \<and> byte c \<le> 57)"

definition isLocator :: "string \<Rightarrow> bool" where
  "isLocator s =
     (length s = 6 \<and> letterAR (s ! 0) \<and> letterAR (s ! 1) \<and> digit09 (s ! 2) \<and> digit09 (s ! 3)
      \<and> letterAX (s ! 4) \<and> letterAX (s ! 5))"

text \<open>The rules of validation, on the canonical form: upper case A to R, lower case a to x.\<close>

definition upperAR :: "char \<Rightarrow> bool" where
  "upperAR c = (65 \<le> byte c \<and> byte c \<le> 82)"

definition lowerAX :: "char \<Rightarrow> bool" where
  "lowerAX c = (97 \<le> byte c \<and> byte c \<le> 120)"

text \<open>The phrase of the first rule a string violates, the seven rules taken in order.\<close>

definition firstViolation :: "string \<Rightarrow> string option" where
  "firstViolation s =
     (if length s \<noteq> 6 then Some ''must be 6 characters''
      else if \<not> upperAR (s ! 0) then Some ''first character must be A-R''
      else if \<not> upperAR (s ! 1) then Some ''second character must be A-R''
      else if \<not> digit09 (s ! 2) then Some ''third character must be a digit''
      else if \<not> digit09 (s ! 3) then Some ''fourth character must be a digit''
      else if \<not> lowerAX (s ! 4) then Some ''fifth character must be a-x''
      else if \<not> lowerAX (s ! 5) then Some ''sixth character must be a-x''
      else None)"

text \<open>Case folding of one ASCII character, and the canonical form \<open>AA99aa\<close> of six bytes.\<close>

definition upperChar :: "char \<Rightarrow> char" where
  "upperChar c = (if 97 \<le> byte c \<and> byte c \<le> 122 then char_of (byte c - 32) else c)"

definition lowerChar :: "char \<Rightarrow> char" where
  "lowerChar c = (if 65 \<le> byte c \<and> byte c \<le> 90 then char_of (byte c + 32) else c)"

definition canonical :: "string \<Rightarrow> string" where
  "canonical s =
     (if length s \<noteq> 6 then s
      else [upperChar (s ! 0), upperChar (s ! 1), s ! 2, s ! 3, lowerChar (s ! 4), lowerChar (s ! 5)])"

text \<open>Two strings that differ only in the case of their letters.\<close>

definition sameUpToCase :: "string \<Rightarrow> string \<Rightarrow> bool" where
  "sameUpToCase s t = (map lowerChar s = map lowerChar t)"

text \<open>
  The indices the formulas use: the place of a letter in the alphabet, whatever its case,
  and the value of a digit.
\<close>

definition letterIndex :: "char \<Rightarrow> real" where
  "letterIndex c = real (byte (lowerChar c)) - 97"

definition digitValue :: "char \<Rightarrow> real" where
  "digitValue c = real (byte c) - 48"

text \<open>
  The indices as the formulas of the specification take them from the canonical form: the
  code of the character less the code of \<open>A\<close> for a field, less the code of \<open>a\<close> for a
  subsquare.
\<close>

definition fieldIndex :: "char \<Rightarrow> real" where
  "fieldIndex c = real (byte c) - 65"

definition subIndex :: "char \<Rightarrow> real" where
  "subIndex c = real (byte c) - 97"

definition round5 :: "real \<Rightarrow> real" where
  "round5 x = math_Round (x * 100000) / 100000"

text \<open>The remainder modulo 360 that lies in the range from 0 to 360, 360 excluded.\<close>

definition mod360 :: "real \<Rightarrow> real" where
  "mod360 x = x - 360 * of_int \<lfloor>x / 360\<rfloor>"

text \<open>The error \<open>validateInput\<close> returns when a position check fails.\<close>

definition formatError :: "string \<Rightarrow> string \<Rightarrow> failure" where
  "formatError s phrase = Error (''invalid gridsquare format: '' @ s @ '' ('' @ phrase @ '')'')"

section \<open>Bytes, ASCII strings and their runes\<close>

lemma byte_lt_256: "byte c < 256"
  unfolding byte_def by (cases c) simp

lemma char_of_byte: "char_of (byte c) = c"
  unfolding byte_def by simp

lemma byte_char_of: "n < 256 \<Longrightarrow> byte (char_of n) = n"
  unfolding byte_def by (simp add: take_bit_eq_mod)

lemma char_eq_byte: "c = d \<longleftrightarrow> byte c = byte d"
  unfolding byte_def by simp

lemma byte_numeral: "byte (char_of (numeral k :: nat)) = numeral k mod 256"
  unfolding byte_def by (simp add: take_bit_eq_mod)

lemma length6E:
  assumes "length s = 6"
  obtains c0 c1 c2 c3 c4 c5 where "s = [c0, c1, c2, c3, c4, c5]"
  using assms by (auto simp: eval_nat_numeral length_Suc_conv)

lemma decodeRune_ascii: "byte c < 128 \<Longrightarrow> decodeRune (c # cs) = (byte c, 1)"
  by (simp add: decodeRune_def seqLen_def)

lemma stringToRunes_ascii: "\<forall>c \<in> set s. byte c < 128 \<Longrightarrow> stringToRunes s = map byte s"
  by (induction s) (simp_all add: decodeRune_ascii)

lemma encodeRune_ascii: "r < 128 \<Longrightarrow> encodeRune r = [char_of r]"
  by (simp add: encodeRune_def)

lemma ToUpper_ascii: "byte c < 128 \<Longrightarrow> char_of (ToUpper lib (byte c)) = upperChar c"
  by (auto simp: ToUpper_def upperChar_def char_of_byte)

lemma ToLower_ascii: "byte c < 128 \<Longrightarrow> char_of (ToLower lib (byte c)) = lowerChar c"
  by (auto simp: ToLower_def lowerChar_def char_of_byte)

lemma ToUpper_ascii_lt: "r < 128 \<Longrightarrow> ToUpper lib r < 128"
  by (auto simp: ToUpper_def)

lemma ToLower_ascii_lt: "r < 128 \<Longrightarrow> ToLower lib r < 128"
  by (auto simp: ToLower_def)

section \<open>Normalisation\<close>

lemma normalize_other_length: "length s \<noteq> 6 \<Longrightarrow> normalizeGridSquare lib s = Inr s"
  by (simp add: normalizeGridSquare_def)

lemma normalize_ascii:
  assumes len: "length s = 6" and ascii: "\<forall>c \<in> set s. byte c < 128"
  shows "normalizeGridSquare lib s = Inr (canonical s)"
proof -
  obtain c0 c1 c2 c3 c4 c5 where s: "s = [c0, c1, c2, c3, c4, c5]"
    using len by (rule length6E)
  have a: "byte c0 < 128" "byte c1 < 128" "byte c2 < 128" "byte c3 < 128" "byte c4 < 128" "byte c5 < 128"
    using ascii by (simp_all add: s)
  have r: "stringToRunes s = [byte c0, byte c1, byte c2, byte c3, byte c4, byte c5]"
    using stringToRunes_ascii [OF ascii] by (simp add: s)
  show ?thesis
    using a
    by (simp add: normalizeGridSquare_def r updateAt_def runesToString_def canonical_def
        encodeRune_ascii ToUpper_ascii_lt ToLower_ascii_lt ToUpper_ascii ToLower_ascii char_of_byte)
       (simp add: s)
qed

lemma runes_of_failing_input:
  "stringToRunes [CHR 0xC3, CHR 0xA9, CHR ''N'', CHR ''5'', CHR ''8'', CHR ''t''] = [233, 78, 53, 56, 116]"
  by (simp add: decodeRune_def seqLen_def acceptLo_def acceptHi_def byte_def)

lemma normalize_failing_input:
  "normalizeGridSquare lib [CHR 0xC3, CHR 0xA9, CHR ''N'', CHR ''5'', CHR ''8'', CHR ''t'']
     = Inl (IndexOutOfRange 5 5)"
  unfolding normalizeGridSquare_def runes_of_failing_input
  by (simp add: updateAt_def)

section \<open>Validation\<close>

lemma isUpperAR_eq:
  "0 \<le> pos \<Longrightarrow> pos < int (length s) \<Longrightarrow> isUpperARAtPosition lib s pos = Inr (upperAR (s ! nat pos))"
  by (auto simp: isUpperARAtPosition_def isUppercaseAtPosition_def IsUpper_def upperAR_def Let_def)

lemma isLowerAX_eq:
  "0 \<le> pos \<Longrightarrow> pos < int (length s) \<Longrightarrow> isLowerAXAtPosition lib s pos = Inr (lowerAX (s ! nat pos))"
  by (auto simp: isLowerAXAtPosition_def isLowercaseAtPosition_def IsLower_def lowerAX_def Let_def)

lemma isDigit_eq:
  "0 \<le> pos \<Longrightarrow> pos < int (length s) \<Longrightarrow> isDigitAtPosition lib s pos = Inr (digit09 (s ! nat pos))"
  using byte_lt_256 [of "s ! nat pos"]
  by (auto simp: isDigitAtPosition_def IsDigit_def digit09_def)

lemma validateInput_len6:
  assumes "length s = 6"
  shows "validateInput lib s =
     (if \<not> upperAR (s ! 0) then Some (formatError s ''first character must be A-R'')
      else if \<not> upperAR (s ! 1) then Some (formatError s ''second character must be A-R'')
      else if \<not> digit09 (s ! 2) then Some (formatError s ''third character must be a digit'')
      else if \<not> digit09 (s ! 3) then Some (formatError s ''fourth character must be a digit'')
      else if \<not> lowerAX (s ! 4) then Some (formatError s ''fifth character must be a-x'')
      else if \<not> lowerAX (s ! 5) then Some (formatError s ''sixth character must be a-x'')
      else None)"
proof -
  have u: "\<And>p. 0 \<le> p \<Longrightarrow> p < 6 \<Longrightarrow> isUpperARAtPosition lib s p = Inr (upperAR (s ! nat p))"
    using assms by (simp add: isUpperAR_eq)
  have l: "\<And>p. 0 \<le> p \<Longrightarrow> p < 6 \<Longrightarrow> isLowerAXAtPosition lib s p = Inr (lowerAX (s ! nat p))"
    using assms by (simp add: isLowerAX_eq)
  have d: "\<And>p. 0 \<le> p \<Longrightarrow> p < 6 \<Longrightarrow> isDigitAtPosition lib s p = Inr (digit09 (s ! nat p))"
    using assms by (simp add: isDigit_eq)
  show ?thesis
    using assms by (simp add: validateInput_def validators_def formatError_def u l d del: append.simps)
qed

lemma validateInput_length:
  "length s \<noteq> 6 \<Longrightarrow>
   validateInput lib s = Some (Error (''invalid gridsquare format: '' @ s @ '' (must be 6 characters)''))"
  by (simp add: validateInput_def)

lemma validateInput_None_iff:
  "validateInput lib s = None \<longleftrightarrow>
     length s = 6 \<and> upperAR (s ! 0) \<and> upperAR (s ! 1) \<and> digit09 (s ! 2) \<and> digit09 (s ! 3)
     \<and> lowerAX (s ! 4) \<and> lowerAX (s ! 5)"
proof (cases "length s = 6")
  case True
  show ?thesis unfolding validateInput_len6 [OF True] using True by simp
next
  case False
  then show ?thesis by (simp add: validateInput_length)
qed

lemma sublist_paren: "sublist p (a @ s @ '' ('' @ p @ '')'')"
  by (metis sublist_appendI sublist_order.order_trans sublist_append_leftI append.assoc)

lemma sublist_mid: "sublist s (a @ s @ b)"
  by (rule sublist_appendI)

section \<open>Locators and their coordinates\<close>

lemma upperChar_AR: "letterAR c \<Longrightarrow> upperAR (upperChar c)"
  by (auto simp: letterAR_def upperAR_def upperChar_def byte_char_of)

lemma lowerChar_AX: "letterAX c \<Longrightarrow> lowerAX (lowerChar c)"
  by (auto simp: letterAX_def lowerAX_def lowerChar_def byte_char_of)

lemma locator_ascii: "isLocator s \<Longrightarrow> \<forall>c \<in> set s. byte c < 128"
proof -
  assume l: "isLocator s"
  then have "length s = 6" by (simp add: isLocator_def)
  then obtain c0 c1 c2 c3 c4 c5 where s: "s = [c0, c1, c2, c3, c4, c5]" by (rule length6E)
  show ?thesis using l unfolding s isLocator_def letterAR_def letterAX_def digit09_def by auto
qed

lemma normalize_locator: "isLocator s \<Longrightarrow> normalizeGridSquare lib s = Inr (canonical s)"
  by (rule normalize_ascii) (simp_all add: isLocator_def locator_ascii)

lemma validate_canonical: "isLocator s \<Longrightarrow> validateInput lib (canonical s) = None"
  unfolding validateInput_None_iff
  by (simp add: isLocator_def canonical_def upperChar_AR lowerChar_AX)

lemma Atoi_digit: "digit09 c \<Longrightarrow> Atoi lib [c] = Inr (int (byte c - 48))"
  by (auto simp: Atoi_def digit09_def byte_def)

lemma upper_index: "letterAR c \<Longrightarrow> real (byte (upperChar c)) = letterIndex c + 65"
  by (auto simp: letterAR_def upperChar_def lowerChar_def letterIndex_def byte_char_of)

lemma lower_index: "letterAX c \<Longrightarrow> real (byte (lowerChar c)) = letterIndex c + 97"
  by (simp add: letterIndex_def)

lemma digit_value: "digit09 c \<Longrightarrow> real (byte c - 48) = digitValue c"
  by (auto simp: digit09_def digitValue_def)

lemma canonical_runes:
  assumes "isLocator s"
  shows "stringToRunes (canonical s) =
     [byte (upperChar (s ! 0)), byte (upperChar (s ! 1)), byte (s ! 2), byte (s ! 3),
      byte (lowerChar (s ! 4)), byte (lowerChar (s ! 5))]"
proof -
  have v: "validateInput lib (canonical s) = None" for lib
    using assms by (rule validate_canonical)
  have len: "length s = 6" using assms by (simp add: isLocator_def)
  have c: "canonical s = [upperChar (s ! 0), upperChar (s ! 1), s ! 2, s ! 3, lowerChar (s ! 4), lowerChar (s ! 5)]"
    using len by (simp add: canonical_def)
  have "\<forall>x \<in> set (canonical s). byte x < 128"
    using assms upperChar_AR [of "s ! 0"] upperChar_AR [of "s ! 1"] lowerChar_AX [of "s ! 4"] lowerChar_AX [of "s ! 5"]
    unfolding c by (auto simp: isLocator_def upperAR_def lowerAX_def digit09_def)
  then have "stringToRunes (canonical s) = map byte (canonical s)"
    by (rule stringToRunes_ascii)
  then show ?thesis by (simp add: c)
qed

lemma Latitude_locator:
  assumes "isLocator s"
  shows "LatitudeFromGridSquare lib s =
     Inr (round5 (letterIndex (s ! 1) * 10 + digitValue (s ! 3) * 1
                  + letterIndex (s ! 5) * (2.5 / 60) + (2.5 / 60) / 2 - 90))"
proof -
  have d3: "digit09 (s ! 3)" and l1: "letterAR (s ! 1)" and l5: "letterAX (s ! 5)"
    using assms by (simp_all add: isLocator_def)
  have b3: "byte (s ! 3) < 128" using d3 by (simp add: digit09_def)
  have u1: "real (byte (upperChar (s ! Suc 0))) = letterIndex (s ! Suc 0) + 65"
    using upper_index [OF l1] by simp
  show ?thesis
    unfolding LatitudeFromGridSquare_def
    by (simp add: normalize_locator [OF assms] validate_canonical [OF assms]
        canonical_runes [OF assms] readAt_def encodeRune_ascii [OF b3] char_of_byte
        Atoi_digit [OF d3] digit_value [OF d3] u1 lower_index [OF l5]
        round5_def asciiUpperA_def asciiLowerA_def fieldHeight_def squareHeight_def
        subsquareHeight_def rounding_def)
qed

lemma Longitude_locator:
  assumes "isLocator s"
  shows "LongitudeFromGridSquare lib s =
     Inr (round5 (letterIndex (s ! 0) * 20 + digitValue (s ! 2) * 2
                  + letterIndex (s ! 4) * (5 / 60) + (5 / 60) / 2 - 180))"
proof -
  have d2: "digit09 (s ! 2)" and l0: "letterAR (s ! 0)" and l4: "letterAX (s ! 4)"
    using assms by (simp_all add: isLocator_def)
  have b2: "byte (s ! 2) < 128" using d2 by (simp add: digit09_def)
  show ?thesis
    unfolding LongitudeFromGridSquare_def
    by (simp add: normalize_locator [OF assms] validate_canonical [OF assms]
        canonical_runes [OF assms] readAt_def encodeRune_ascii [OF b2] char_of_byte
        Atoi_digit [OF d2] digit_value [OF d2] upper_index [OF l0] lower_index [OF l4]
        round5_def asciiUpperA_def asciiLowerA_def fieldWidth_def squareWidth_def
        subsquareWidth_def rounding_def)
qed

lemma canonical_indices:
  assumes "isLocator s"
  shows "fieldIndex (canonical s ! 0) = letterIndex (s ! 0)"
    and "fieldIndex (canonical s ! 1) = letterIndex (s ! 1)"
    and "digitValue (canonical s ! 2) = digitValue (s ! 2)"
    and "digitValue (canonical s ! 3) = digitValue (s ! 3)"
    and "subIndex (canonical s ! 4) = letterIndex (s ! 4)"
    and "subIndex (canonical s ! 5) = letterIndex (s ! 5)"
proof -
  have len: "length s = 6" and l0: "letterAR (s ! 0)" and l1: "letterAR (s ! 1)"
    using assms by (simp_all add: isLocator_def)
  have c: "canonical s = [upperChar (s ! 0), upperChar (s ! 1), s ! 2, s ! 3, lowerChar (s ! 4), lowerChar (s ! 5)]"
    using len by (simp add: canonical_def)
  show "fieldIndex (canonical s ! 0) = letterIndex (s ! 0)"
    unfolding c using upper_index [OF l0] by (simp add: fieldIndex_def)
  show "fieldIndex (canonical s ! 1) = letterIndex (s ! 1)"
    unfolding c using upper_index [OF l1] by (simp add: fieldIndex_def)
  show "digitValue (canonical s ! 2) = digitValue (s ! 2)" unfolding c by simp
  show "digitValue (canonical s ! 3) = digitValue (s ! 3)" unfolding c by simp
  show "subIndex (canonical s ! 4) = letterIndex (s ! 4)"
    unfolding c by (simp add: subIndex_def letterIndex_def)
  show "subIndex (canonical s ! 5) = letterIndex (s ! 5)"
    unfolding c by (simp add: subIndex_def letterIndex_def)
qed

lemma canonical_jn58TD: "canonical ''jn58TD'' = ''JN58td''"
  by (simp add: canonical_def upperChar_def lowerChar_def char_eq_byte byte_numeral byte_def)

lemma isLocator_jn58TD: "isLocator ''jn58TD''"
  by (simp add: isLocator_def letterAR_def letterAX_def digit09_def byte_def)

lemma extract_locator:
  assumes "isLocator s"
  shows "\<exists>lat lon. extractCoordinates lib s = Inr \<lparr>Latitude = lat, Longitude = lon\<rparr>"
  by (simp add: extractCoordinates_def Latitude_locator [OF assms] Longitude_locator [OF assms])

lemma extract_failing_input:
  "extractCoordinates lib [CHR 0xC3, CHR 0xA9, CHR ''N'', CHR ''5'', CHR ''8'', CHR ''t'']
     = Inl (IndexOutOfRange 5 5)"
  by (simp add: extractCoordinates_def LatitudeFromGridSquare_def normalize_failing_input)

lemma isLocator_JN58td: "isLocator ''JN58td''"
  by (simp add: isLocator_def letterAR_def letterAX_def digit09_def byte_def)

lemma isLocator_FN31pr: "isLocator ''FN31pr''"
  by (simp add: isLocator_def letterAR_def letterAX_def digit09_def byte_def)

section \<open>Strings that differ in the case of their letters\<close>

lemma lowerChar_digit: "digit09 (lowerChar c) \<Longrightarrow> lowerChar c = c"
  using byte_lt_256 [of c]
  by (auto simp: digit09_def lowerChar_def byte_char_of split: if_splits)

lemma digit_lowerChar: "digit09 c \<Longrightarrow> lowerChar c = c"
  by (auto simp: digit09_def lowerChar_def)

lemma letterAR_lower: "letterAR c \<longleftrightarrow> 97 \<le> byte (lowerChar c) \<and> byte (lowerChar c) \<le> 114"
  using byte_lt_256 [of c]
  by (auto simp: letterAR_def lowerChar_def byte_char_of)

lemma letterAX_lower: "letterAX c \<longleftrightarrow> 97 \<le> byte (lowerChar c) \<and> byte (lowerChar c) \<le> 120"
  using byte_lt_256 [of c]
  by (auto simp: letterAX_def lowerChar_def byte_char_of)

lemma sameUpToCase_nth:
  assumes "sameUpToCase s t" "i < length s"
  shows "lowerChar (t ! i) = lowerChar (s ! i)"
proof -
  have m: "map lowerChar s = map lowerChar t" using assms(1) by (simp add: sameUpToCase_def)
  then have l: "length s = length t" by (rule map_eq_imp_length_eq)
  have "map lowerChar s ! i = map lowerChar t ! i" using m by simp
  then show ?thesis using assms(2) l by simp
qed

lemma sameUpToCase_length: "sameUpToCase s t \<Longrightarrow> length t = length s"
  unfolding sameUpToCase_def by (drule map_eq_imp_length_eq) simp

lemma sameUpToCase_digit:
  assumes "sameUpToCase s t" "i < length s" "digit09 (s ! i)"
  shows "t ! i = s ! i"
proof -
  have e: "lowerChar (t ! i) = s ! i"
    using sameUpToCase_nth [OF assms(1,2)] digit_lowerChar [OF assms(3)] by simp
  then have "digit09 (lowerChar (t ! i))" using assms(3) by simp
  then have "lowerChar (t ! i) = t ! i" by (rule lowerChar_digit)
  with e show ?thesis by simp
qed

lemma sameUpToCase_locator:
  assumes l: "isLocator s" and v: "sameUpToCase s t"
  shows "isLocator t"
proof -
  have len: "length s = 6" using l by (simp add: isLocator_def)
  have n: "\<And>i. i < 6 \<Longrightarrow> lowerChar (t ! i) = lowerChar (s ! i)"
    using sameUpToCase_nth [OF v] len by simp
  have d2: "t ! 2 = s ! 2" using sameUpToCase_digit [OF v, of 2] l len by (simp add: isLocator_def)
  have d3: "t ! 3 = s ! 3" using sameUpToCase_digit [OF v, of 3] l len by (simp add: isLocator_def)
  show ?thesis
    using l sameUpToCase_length [OF v] n [of 0] n [of 1] n [of 4] n [of 5] d2 d3
    unfolding isLocator_def letterAR_lower letterAX_lower by simp
qed

lemma case_variant_coordinates:
  assumes l: "isLocator s" and v: "sameUpToCase s t"
  shows "LatitudeFromGridSquare lib t = LatitudeFromGridSquare lib s"
    and "LongitudeFromGridSquare lib t = LongitudeFromGridSquare lib s"
proof -
  have lt: "isLocator t" using l v by (rule sameUpToCase_locator)
  have len: "length s = 6" using l by (simp add: isLocator_def)
  have n: "\<And>i. i < 6 \<Longrightarrow> letterIndex (t ! i) = letterIndex (s ! i)"
    using sameUpToCase_nth [OF v] len by (simp add: letterIndex_def)
  have d2: "t ! 2 = s ! 2" using sameUpToCase_digit [OF v, of 2] l len by (simp add: isLocator_def)
  have d3: "t ! 3 = s ! 3" using sameUpToCase_digit [OF v, of 3] l len by (simp add: isLocator_def)
  show "LatitudeFromGridSquare lib t = LatitudeFromGridSquare lib s"
    unfolding Latitude_locator [OF l] Latitude_locator [OF lt]
    using n [of 1] n [of 5] d3 by simp
  show "LongitudeFromGridSquare lib t = LongitudeFromGridSquare lib s"
    unfolding Longitude_locator [OF l] Longitude_locator [OF lt]
    using n [of 0] n [of 4] d2 by simp
qed

section \<open>Rounding, remainders and the arc tangent\<close>

lemma Round_close: "\<bar>math_Round y - y\<bar> \<le> 1 / 2"
proof (cases "y < 0")
  case True
  have "of_int \<lceil>y - 1 / 2\<rceil> - 1 < y - 1 / 2" "y - 1 / 2 \<le> of_int \<lceil>y - 1 / 2\<rceil>"
    using ceiling_correct [of "y - 1 / 2"] by simp_all
  then have "\<bar>of_int \<lceil>y - 1 / 2\<rceil> - y\<bar> \<le> 1 / 2" by linarith
  moreover have "math_Round y = of_int \<lceil>y - 1 / 2\<rceil>"
    using True by (simp add: math_Round_def)
  ultimately show ?thesis by (simp only:)
next
  case False
  have "of_int \<lfloor>y + 1 / 2\<rfloor> \<le> y + 1 / 2" "y + 1 / 2 < of_int \<lfloor>y + 1 / 2\<rfloor> + 1"
    using floor_correct [of "y + 1 / 2"] by simp_all
  then have "\<bar>of_int \<lfloor>y + 1 / 2\<rfloor> - y\<bar> \<le> 1 / 2" by linarith
  moreover have "math_Round y = of_int \<lfloor>y + 1 / 2\<rfloor>"
    using False by (simp add: math_Round_def)
  ultimately show ?thesis by (simp only:)
qed

lemma Round_range:
  assumes "0 \<le> v" "v < 3600"
  shows "0 \<le> math_Round v \<and> math_Round v \<le> 3600"
proof -
  have r: "math_Round v = of_int \<lfloor>v + 1 / 2\<rfloor>" using assms(1) by (simp add: math_Round_def)
  have "0 \<le> \<lfloor>v + 1 / 2\<rfloor>" using assms(1) by (simp add: zero_le_floor)
  moreover have "\<lfloor>v + 1 / 2\<rfloor> \<le> 3600" using assms(2) by (simp add: floor_le_iff)
  ultimately show ?thesis unfolding r by simp
qed

lemma scaled_lower: "(f :: real) \<le> x / 360 \<Longrightarrow> \<not> x - 360 * f < 0"
  by (simp add: field_simps)

lemma scaled_upper: "x / 360 < (f :: real) + 1 \<Longrightarrow> x - 360 * (f + 1) < 0"
  by (simp add: field_simps)

lemma renormalized_Mod:
  "(let m = math_Mod x 360 in if m < 0 then m + 360 else m) = mod360 x"
proof -
  let ?f = "of_int \<lfloor>x / 360\<rfloor> :: real"
  have lo: "?f \<le> x / 360" and hi: "x / 360 < ?f + 1"
    using floor_correct [of "x / 360"] by simp_all
  consider (nonneg) "\<not> x / 360 < 0"
    | (whole) "x / 360 < 0" "x / 360 = ?f"
    | (part) "x / 360 < 0" "x / 360 \<noteq> ?f"
    by blast
  then have "(if math_Mod x 360 < 0 then math_Mod x 360 + 360 else math_Mod x 360) = x - 360 * ?f"
  proof cases
    case nonneg
    then have m: "math_Mod x 360 = x - 360 * ?f" by (simp add: math_Mod_def)
    have "\<not> x - 360 * ?f < 0" using lo by (rule scaled_lower)
    then show ?thesis unfolding m by (simp only: if_False)
  next
    case whole
    then have "\<lceil>x / 360\<rceil> = \<lfloor>x / 360\<rfloor>" by (simp add: ceiling_altdef)
    with whole(1) have m: "math_Mod x 360 = x - 360 * ?f" by (simp add: math_Mod_def)
    have "\<not> x - 360 * ?f < 0" using lo by (rule scaled_lower)
    then show ?thesis unfolding m by (simp only: if_False)
  next
    case part
    then have "\<lceil>x / 360\<rceil> = \<lfloor>x / 360\<rfloor> + 1" by (simp add: ceiling_altdef)
    with part(1) have m: "math_Mod x 360 = x - 360 * (?f + 1)" by (simp add: math_Mod_def)
    have n: "x - 360 * (?f + 1) < 0" using hi by (rule scaled_upper)
    have "x - 360 * (?f + 1) + 360 = x - 360 * ?f" by (simp add: algebra_simps)
    then show ?thesis unfolding m using n by (simp only: if_True)
  qed
  then show ?thesis by (simp only: Let_def mod360_def)
qed

lemma arctan_bounds:
  fixes x :: real
  assumes "0 \<le> x" "x \<le> 1"
  shows "(\<Sum>i<2 * n. (- 1) ^ i * (1 / real (i * 2 + 1) * x ^ (i * 2 + 1))) \<le> arctan x"
    and "arctan x \<le> (\<Sum>i<2 * n + 1. (- 1) ^ i * (1 / real (i * 2 + 1) * x ^ (i * 2 + 1)))"
proof -
  let ?a = "\<lambda>i. 1 / real (i * 2 + 1) * x ^ (i * 2 + 1)"
  have ax: "\<bar>x\<bar> \<le> 1" using assms by simp
  have z: "?a \<longlonglongrightarrow> 0" using ax by (rule zeroseq_arctan_series)
  have nn: "\<And>i. 0 \<le> ?a i" using assms by simp
  have dec: "\<And>i. ?a (Suc i) \<le> ?a i"
  proof -
    fix i
    have p: "x ^ (Suc i * 2 + 1) \<le> x ^ (i * 2 + 1)"
      using assms by (intro power_decreasing) simp_all
    have q: "1 / real (Suc i * 2 + 1) \<le> 1 / real (i * 2 + 1)"
      by (intro divide_left_mono) simp_all
    show "?a (Suc i) \<le> ?a i"
      using p q assms by (intro mult_mono) simp_all
  qed
  have s: "arctan x = (\<Sum>i. (- 1) ^ i * ?a i)" using ax by (rule arctan_series)
  show "(\<Sum>i<2 * n. (- 1) ^ i * ?a i) \<le> arctan x"
    unfolding s by (rule summable_Leibniz'(2) [OF z nn dec])
  show "arctan x \<le> (\<Sum>i<2 * n + 1. (- 1) ^ i * ?a i)"
    unfolding s by (rule summable_Leibniz'(4) [OF z nn dec])
qed

lemma arctan_le_self: "0 \<le> x \<Longrightarrow> x \<le> 1 \<Longrightarrow> arctan x \<le> (x :: real)"
  using arctan_bounds(2) [of x 0] by simp

lemma Atan2_range: "- pi \<le> math_Atan2 y x \<and> math_Atan2 y x \<le> pi"
proof -
  have "- (pi / 2) < arctan (y / x)" "arctan (y / x) < pi / 2"
    using arctan_bounded [of "y / x"] by simp_all
  then show ?thesis
    unfolding math_Atan2_def Let_def using pi_gt_zero by (auto simp: not_le) 
qed

lemma toDegrees_range: "- pi \<le> r \<Longrightarrow> r \<le> pi \<Longrightarrow> - 180 \<le> toDegrees r \<and> toDegrees r \<le> 180"
  unfolding toDegrees_def using pi_gt_zero by (simp add: field_simps)

section \<open>Bearings and distances\<close>

lemma CalculateBearing_range:
  "0 \<le> CalculateBearing lat1 lon1 lat2 lon2 \<and> CalculateBearing lat1 lon1 lat2 lon2 \<le> 360"
proof -
  define a where "a = toDegrees (math_Atan2
     (sin (toRadians lon2 - toRadians lon1) * cos (toRadians lat2))
     (cos (toRadians lat1) * sin (toRadians lat2)
       - sin (toRadians lat1) * cos (toRadians lat2) * cos (toRadians lon2 - toRadians lon1)))"
  define b where "b = (if a < 0 then a + 360 else a)"
  have c: "CalculateBearing lat1 lon1 lat2 lon2 = math_Round (b * 10) / 10"
    by (simp add: CalculateBearing_def Let_def a_def b_def)
  have "- 180 \<le> a \<and> a \<le> 180"
    unfolding a_def using Atan2_range by (intro toDegrees_range) simp_all
  then have "0 \<le> b * 10" "b * 10 < 3600" by (auto simp: b_def)
  then have "0 \<le> math_Round (b * 10) \<and> math_Round (b * 10) \<le> 3600" by (rule Round_range)
  then show ?thesis unfolding c by simp
qed

lemma CalculateBearing_tenths:
  "\<exists>k :: int. CalculateBearing lat1 lon1 lat2 lon2 = of_int k / 10"
  by (auto simp: CalculateBearing_def Let_def math_Round_def)

lemma CalculateBearing_same_point: "CalculateBearing lat lon lat lon = 0"
  by (simp add: CalculateBearing_def Let_def math_Atan2_def toDegrees_def math_Round_def)

lemma bearing_just_west_of_north: "CalculateBearing 0 0 45 (- 0.01) = 360"
proof -
  define d :: real where "d = pi / 18000"
  define a where "a = arctan (sin d)"
  have d0: "0 < d" by (simp add: d_def)
  have d1: "d < 1" using pi_less_4 by (simp add: d_def)
  have dpi: "d < pi" using pi_gt_zero by (simp add: d_def)
  have s0: "0 < sin d" using d0 dpi by (rule sin_gt_zero)
  have s1: "sin d \<le> d" using d0 by (intro sin_x_le_x) simp
  have a0: "0 < a" using s0 by (simp add: a_def zero_less_arctan_iff)
  have "a \<le> sin d" unfolding a_def using s0 s1 d1 by (intro arctan_le_self) simp_all
  then have a1: "a \<le> d" using s1 by simp
  have r2: "sqrt 2 / 2 \<noteq> (0 :: real)" by simp
  have x: "cos (toRadians 0) * sin (toRadians 45)
           - sin (toRadians 0) * cos (toRadians 45) * cos (toRadians (- 0.01) - toRadians 0)
           = sqrt 2 / 2"
    by (simp add: toRadians_def sin_45)
  have y: "sin (toRadians (- 0.01) - toRadians 0) * cos (toRadians 45) = - sin d * (sqrt 2 / 2)"
    by (simp add: toRadians_def cos_45 d_def)
  have q: "- sin d * (sqrt 2 / 2) / (sqrt 2 / 2) = - sin d"
    using r2 by simp
  have ne: "- sin d * (sqrt 2 / 2) \<noteq> 0" using s0 by simp
  have at: "math_Atan2 (- sin d * (sqrt 2 / 2)) (sqrt 2 / 2) = - a"
    unfolding math_Atan2_def Let_def q using ne by (simp add: a_def arctan_minus)
  have deg_neg: "toDegrees (- a) < 0" using a0 by (simp add: toDegrees_def)
  have deg_lo: "- 0.01 \<le> toDegrees (- a)"
  proof -
    have "a * 180 / pi \<le> d * 180 / pi" using a1 pi_gt_zero by (simp add: divide_right_mono)
    also have "d * 180 / pi = 0.01" by (simp add: d_def)
    finally show ?thesis by (simp add: toDegrees_def)
  qed
  define b where "b = (toDegrees (- a) + 360) * 10"
  have b_lo: "3599.9 \<le> b" and b_hi: "b < 3600" using deg_lo deg_neg by (simp_all add: b_def)
  have "\<lfloor>b + 1 / 2\<rfloor> = 3600" using b_lo b_hi by (simp add: floor_eq_iff)
  then have rb: "math_Round b = 3600" using b_lo by (simp add: math_Round_def)
  have "CalculateBearing 0 0 45 (- 0.01) = math_Round b / 10"
    unfolding CalculateBearing_def Let_def x y at b_def using deg_neg by (simp only: if_True)
  then show ?thesis by (simp add: rb)
qed

lemma bearings_locators:
  assumes "isLocator l" "isLocator r"
  shows "\<exists>sp. GetShortPathBearing lib l r = Inr sp
          \<and> GetLongPathBearing lib l r = Inr (math_Round (mod360 (sp + 180) * 10) / 10)"
proof -
  obtain la lo where a: "extractCoordinates lib l = Inr \<lparr>Latitude = la, Longitude = lo\<rparr>"
    using extract_locator [OF assms(1)] by blast
  obtain ra ro where b: "extractCoordinates lib r = Inr \<lparr>Latitude = ra, Longitude = ro\<rparr>"
    using extract_locator [OF assms(2)] by blast
  have s: "GetShortPathBearing lib l r = Inr (CalculateBearing la lo ra ro)"
    by (simp add: GetShortPathBearing_def a b)
  have "GetLongPathBearing lib l r =
      Inr (math_Round ((let m = math_Mod (CalculateBearing la lo ra ro + 180) 360 in
                          if m < 0 then m + 360 else m) * 10) / 10)"
    by (simp add: GetLongPathBearing_def s Let_def)
  then show ?thesis using s by (simp add: renormalized_Mod)
qed

lemma local_error_tagged:
  assumes "extractCoordinates lib l = Inl (Error msg)"
  shows "GetShortPathBearing lib l r = Inl (Error (''invalid local grid square: '' @ msg))"
    and "GetShortPathDistance lib l r = Inl (Error (''invalid local grid square: '' @ msg))"
  using assms by (simp_all add: GetShortPathBearing_def GetShortPathDistance_def wrapError_def)

lemma remote_error_tagged:
  assumes "extractCoordinates lib l = Inr c" and "extractCoordinates lib r = Inl (Error msg)"
  shows "GetShortPathBearing lib l r = Inl (Error (''invalid remote grid square: '' @ msg))"
    and "GetShortPathDistance lib l r = Inl (Error (''invalid remote grid square: '' @ msg))"
  using assms by (simp_all add: GetShortPathBearing_def GetShortPathDistance_def wrapError_def)

section \<open>Evaluation of \<open>float64\<close> operations\<close>

lemma fl64_zero: "fl64 0 = 0"
  by (simp add: fl64_def)

text \<open>
  The nearest \<open>float64\<close> of a real \<open>x\<close>, given the power of two that scales it between
  \<open>2 ^ 52\<close> and \<open>2 ^ 53\<close>.
\<close>

lemma fl64_eval:
  assumes lo: "2 ^ 52 \<le> \<bar>x\<bar> * 2 ^ n" and hi: "\<bar>x\<bar> * 2 ^ n < 2 ^ 53"
    and r: "of_int (roundHalfEven (x * 2 ^ n)) / 2 ^ n = r"
  shows "fl64 x = r"
proof -
  have x0: "x \<noteq> 0" using lo by auto
  then have ax: "0 < \<bar>x\<bar>" by simp
  have p: "(2 :: real) powr (real n) = 2 ^ n" by (simp add: powr_realpow)
  have l1: "52 - real n \<le> log 2 \<bar>x\<bar>"
  proof -
    have "(2 :: real) powr (52 - real n) = 2 ^ 52 / 2 ^ n"
      by (simp add: powr_diff powr_realpow)
    also have "\<dots> \<le> \<bar>x\<bar>" using lo by (simp add: field_simps)
    finally show ?thesis using ax by (simp add: le_log_iff)
  qed
  have l2: "log 2 \<bar>x\<bar> < 53 - real n"
  proof -
    have "\<bar>x\<bar> < 2 ^ 53 / 2 ^ n" using hi by (simp add: field_simps)
    also have "\<dots> = (2 :: real) powr (53 - real n)"
      by (simp add: powr_diff powr_realpow)
    finally show ?thesis using ax by (simp add: log_less_iff)
  qed
  have "\<lfloor>log 2 \<bar>x\<bar>\<rfloor> = 52 - int n"
    using l1 l2 by (simp add: floor_eq_iff)
  then have e: "of_int (\<lfloor>log 2 \<bar>x\<bar>\<rfloor> - 52) = - real n" by simp
  have u: "(2 :: real) powr (- real n) = 1 / 2 ^ n"
    by (simp add: powr_minus p field_simps)
  show ?thesis
    unfolding fl64_def e u using x0 r by simp
qed

text \<open>A NaN operand gives NaN.\<close>

lemma lift2_NaN: "lift2 f a NaN = NaN" "lift2 f NaN b = NaN"
  by (simp_all add: lift2_def split: float64.splits)

lemma arithmetic_NaN:
  "fadd a NaN = NaN" "fadd NaN b = NaN" "fsub a NaN = NaN" "fsub NaN b = NaN"
  "fmul a NaN = NaN" "fmul NaN b = NaN" "fdiv a NaN = NaN" "fdiv NaN b = NaN"
  by (simp_all add: fadd_def fsub_def fmul_def fdiv_def lift2_NaN)

lemma Atan2_NaN: "math_Atan2_64 lib y NaN = NaN" "math_Atan2_64 lib NaN x = NaN"
  by (simp_all add: math_Atan2_64_def lift2_NaN)

lemma Ceil_NaN: "math_Ceil64 NaN = NaN"
  by (simp add: math_Ceil64_def lift1_def)

lemma Sqrt_negative: "x < 0 \<Longrightarrow> math_Sqrt (Num x) = NaN"
  by (simp add: math_Sqrt_def)

subsection \<open>The constants\<close>

lemma Pi64_value: "Pi64 = 884279719003555 / 281474976710656"
  unfolding Pi64_def PiLiteral_def
  by (rule fl64_eval [where n = 51]) (simp_all add: roundHalfEven_def)

lemma fourOverPi_value: "fourOverPi = 5734161139222659 / 4503599627370496"
  unfolding fourOverPi_def PiLiteral_def
  by (rule fl64_eval [where n = 52]) (simp_all add: roundHalfEven_def)

lemma PI4A_value: "PI4A = 6588397 / 8388608"
  unfolding PI4A_def PiLiteral_def
  by (rule fl64_eval [where n = 53]) (simp_all add: roundHalfEven_def)

lemma PI4B_value: "PI4B = 1328173 / 35184372088832"
  unfolding PI4B_def PiLiteral_def
  by (rule fl64_eval [where n = 77]) (simp_all add: roundHalfEven_def)

lemma PI4C_value: "PI4C = 427063790847255 / 158456325028528675187087900672"
  unfolding PI4C_def PiLiteral_def
  by (rule fl64_eval [where n = 101]) (simp_all add: roundHalfEven_def)

lemma sinCoeff_value:
  "sinCoeff =
     [6149556183080141 / 38685626227668133590597632,
      - (7571123942793053 / 302231454903657293676544),
      6506786710177953 / 2361183241434822606848,
      - (7320136532877059 / 36893488147419103232),
      300239975157629 / 36028797018963968,
      - (750599937895081 / 4503599627370496)]"
proof -
  have c1: "fl64 (7948115078827328403 / 50000000000000000000000000000) = 6149556183080141 / 38685626227668133590597632"
    by (rule fl64_eval [where n = 85]) (simp_all add: roundHalfEven_def)
  have c2: "fl64 (- (125253738814289036433 / 5000000000000000000000000000)) = - (7571123942793053 / 302231454903657293676544)"
    by (rule fl64_eval [where n = 78]) (simp_all add: roundHalfEven_def)
  have c3: "fl64 (275573136213857245213 / 100000000000000000000000000) = 6506786710177953 / 2361183241434822606848"
    by (rule fl64_eval [where n = 71]) (simp_all add: roundHalfEven_def)
  have c4: "fl64 (- (49603174573973846499 / 250000000000000000000000)) = - (7320136532877059 / 36893488147419103232)"
    by (rule fl64_eval [where n = 65]) (simp_all add: roundHalfEven_def)
  have c5: "fl64 (416666666666105929439 / 50000000000000000000000) = 300239975157629 / 36028797018963968"
    by (rule fl64_eval [where n = 59]) (simp_all add: roundHalfEven_def)
  have c6: "fl64 (- (33333333333333261459 / 200000000000000000000)) = - (750599937895081 / 4503599627370496)"
    by (rule fl64_eval [where n = 55]) (simp_all add: roundHalfEven_def)
  show ?thesis
    unfolding sinCoeff_def by (simp add: c1 c2 c3 c4 c5 c6)
qed

lemma cosCoeff_value:
  "cosCoeff =
     [- (7030593573755547 / 618970019642690137449562112),
      5047434750082821 / 2417851639229258349412352,
      - (2602714736764387 / 9444732965739290427392),
      7320136533427445 / 295147905179352825856,
      - (6405119470030737 / 4611686018427387904),
      6004799503160651 / 144115188075855872]"
proof -
  have c1: "fl64 (- (1135853652138768173 / 100000000000000000000000000000)) = - (7030593573755547 / 618970019642690137449562112)"
    by (rule fl64_eval [where n = 89]) (simp_all add: roundHalfEven_def)
  have c2: "fl64 (104378504209873658389 / 50000000000000000000000000000) = 5047434750082821 / 2417851639229258349412352"
    by (rule fl64_eval [where n = 81]) (simp_all add: roundHalfEven_def)
  have c3: "fl64 (- (17223321362060461757 / 62500000000000000000000000)) = - (2602714736764387 / 9444732965739290427392)"
    by (rule fl64_eval [where n = 74]) (simp_all add: roundHalfEven_def)
  have c4: "fl64 (62003968222129261337 / 2500000000000000000000000) = 7320136533427445 / 295147905179352825856"
    by (rule fl64_eval [where n = 68]) (simp_all add: roundHalfEven_def)
  have c5: "fl64 (- (34722222222182641029 / 25000000000000000000000)) = - (6405119470030737 / 4611686018427387904)"
    by (rule fl64_eval [where n = 62]) (simp_all add: roundHalfEven_def)
  have c6: "fl64 (208333333333332964609 / 5000000000000000000000) = 6004799503160651 / 144115188075855872"
    by (rule fl64_eval [where n = 57]) (simp_all add: roundHalfEven_def)
  show ?thesis
    unfolding cosCoeff_def by (simp add: c1 c2 c3 c4 c5 c6)
qed

subsection \<open>The locators \<open>JA00af\<close> and \<open>AR09as\<close>\<close>

lemma float64Of_coordinates:
  "float64Of (- (8977083 / 100000)) = Num (- (6317060570886565 / 70368744177664))"
  "float64Of (4167 / 100000) = Num (3002639943560457 / 72057594037927936)"
  "float64Of (8977083 / 100000) = Num (6317060570886565 / 70368744177664)"
  "float64Of (- (17995833 / 100000)) = Num (- (3165860421602409 / 17592186044416))"
proof -
  have c1: "fl64 (- (8977083 / 100000)) = - (6317060570886565 / 70368744177664)"
    by (rule fl64_eval [where n = 46]) (simp_all add: roundHalfEven_def)
  have c2: "fl64 (4167 / 100000) = 3002639943560457 / 72057594037927936"
    by (rule fl64_eval [where n = 57]) (simp_all add: roundHalfEven_def)
  have c3: "fl64 (8977083 / 100000) = 6317060570886565 / 70368744177664"
    by (rule fl64_eval [where n = 46]) (simp_all add: roundHalfEven_def)
  have c4: "fl64 (- (17995833 / 100000)) = - (3165860421602409 / 17592186044416)"
    by (rule fl64_eval [where n = 45]) (simp_all add: roundHalfEven_def)
  show "float64Of (- (8977083 / 100000)) = Num (- (6317060570886565 / 70368744177664))"
    and "float64Of (4167 / 100000) = Num (3002639943560457 / 72057594037927936)"
    and "float64Of (8977083 / 100000) = Num (6317060570886565 / 70368744177664)"
    and "float64Of (- (17995833 / 100000)) = Num (- (3165860421602409 / 17592186044416))"
    by (simp_all add: float64Of_def c1 c2 c3 c4)
qed

lemma radians_of_coordinates:
  "toRadians64 (Num (3002639943560457 / 72057594037927936)) = Num (6707962018179415 / 9223372036854775808)"
  "toRadians64 (Num (- (6317060570886565 / 70368744177664))) = Num (- (7056224384632525 / 4503599627370496))"
  "toRadians64 (Num (- (3165860421602409 / 17592186044416))) = Num (- (3536300032994423 / 1125899906842624))"
  "toRadians64 (Num (6317060570886565 / 70368744177664)) = Num (7056224384632525 / 4503599627370496)"
proof -
  have r1: "fl64 (2655173605560491160470940424635 / 20282409603651670423947251286016) = 4716535794032401 / 36028797018963968"
    by (rule fl64_eval [where n = 55]) (simp_all add: roundHalfEven_def)
  have r2: "fl64 (4716535794032401 / 6485183463413514240) = 6707962018179415 / 9223372036854775808"
    by (rule fl64_eval [where n = 63]) (simp_all add: roundHalfEven_def)
  have r3: "fl64 (- (5586048546552008429404736738575 / 19807040628566084398385987584)) = - (620175971305593 / 2199023255552)"
    by (rule fl64_eval [where n = 44]) (simp_all add: roundHalfEven_def)
  have r4: "fl64 (- (68908441256177 / 43980465111040)) = - (7056224384632525 / 4503599627370496)"
    by (rule fl64_eval [where n = 52]) (simp_all add: roundHalfEven_def)
  have r5: "fl64 (- (2799506164019054394041867563995 / 4951760157141521099596496896)) = - (4972921921398407 / 8796093022208)"
    by (rule fl64_eval [where n = 43]) (simp_all add: roundHalfEven_def)
  have r6: "fl64 (- (4972921921398407 / 1583296743997440)) = - (3536300032994423 / 1125899906842624)"
    by (rule fl64_eval [where n = 51]) (simp_all add: roundHalfEven_def)
  have r7: "fl64 (5586048546552008429404736738575 / 19807040628566084398385987584) = 620175971305593 / 2199023255552"
    by (rule fl64_eval [where n = 44]) (simp_all add: roundHalfEven_def)
  have r8: "fl64 (68908441256177 / 43980465111040) = 7056224384632525 / 4503599627370496"
    by (rule fl64_eval [where n = 52]) (simp_all add: roundHalfEven_def)
  show "toRadians64 (Num (3002639943560457 / 72057594037927936)) = Num (6707962018179415 / 9223372036854775808)"
    and "toRadians64 (Num (- (6317060570886565 / 70368744177664))) = Num (- (7056224384632525 / 4503599627370496))"
    and "toRadians64 (Num (- (3165860421602409 / 17592186044416))) = Num (- (3536300032994423 / 1125899906842624))"
    and "toRadians64 (Num (6317060570886565 / 70368744177664)) = Num (7056224384632525 / 4503599627370496)"
    by (simp_all add: toRadians64_def fmul_def fdiv_def lift2_def mul64_def div64_def Pi64_value r1 r2 r3 r4 r5 r6 r7 r8)
qed

lemma half_differences:
  "fdiv (fsub (Num (7056224384632525 / 4503599627370496)) (Num (- (7056224384632525 / 4503599627370496)))) (Num 2) = Num (7056224384632525 / 4503599627370496)"
  "fdiv (fsub (Num (- (3536300032994423 / 1125899906842624))) (Num (6707962018179415 / 9223372036854775808))) (Num 2) = Num (- (7074237752028441 / 4503599627370496))"
proof -
  have d1: "fl64 (7056224384632525 / 2251799813685248) = 7056224384632525 / 2251799813685248"
    by (rule fl64_eval [where n = 51]) (simp_all add: roundHalfEven_def)
  have d2: "fl64 (7056224384632525 / 4503599627370496) = 7056224384632525 / 4503599627370496"
    by (rule fl64_eval [where n = 52]) (simp_all add: roundHalfEven_def)
  have d3: "fl64 (- (28976077832308492631 / 9223372036854775808)) = - (7074237752028441 / 2251799813685248)"
    by (rule fl64_eval [where n = 51]) (simp_all add: roundHalfEven_def)
  have d4: "fl64 (- (7074237752028441 / 4503599627370496)) = - (7074237752028441 / 4503599627370496)"
    by (rule fl64_eval [where n = 52]) (simp_all add: roundHalfEven_def)
  show "fdiv (fsub (Num (7056224384632525 / 4503599627370496)) (Num (- (7056224384632525 / 4503599627370496)))) (Num 2) = Num (7056224384632525 / 4503599627370496)"
    and "fdiv (fsub (Num (- (3536300032994423 / 1125899906842624))) (Num (6707962018179415 / 9223372036854775808))) (Num 2) = Num (- (7074237752028441 / 4503599627370496))"
    by (simp_all add: fsub_def fdiv_def lift2_def sub64_def div64_def d1 d2 d3 d4)
qed

lemma sin64_half_dLat: "sin64 lib (7056224384632525 / 4503599627370496) = 4503563602745841 / 4503599627370496"
proof -
  have s1: "fl64 (40461527655995145515703868383975 / 20282409603651670423947251286016) = 4492131961519335 / 2251799813685248"
    by (rule fl64_eval [where n = 52]) (simp_all add: roundHalfEven_def)
  have s2: "fl64 (6588397 / 4194304) = 6588397 / 4194304"
    by (rule fl64_eval [where n = 52]) (simp_all add: roundHalfEven_def)
  have s3: "fl64 (- (18013027383603 / 4503599627370496)) = - (18013027383603 / 4503599627370496)"
    by (rule fl64_eval [where n = 60]) (simp_all add: roundHalfEven_def)
  have s4: "fl64 (1328173 / 17592186044416) = 1328173 / 17592186044416"
    by (rule fl64_eval [where n = 76]) (simp_all add: roundHalfEven_def)
  have s5: "fl64 (- (18013367395891 / 4503599627370496)) = - (18013367395891 / 4503599627370496)"
    by (rule fl64_eval [where n = 60]) (simp_all add: roundHalfEven_def)
  have s6: "fl64 (427063790847255 / 79228162514264337593543950336) = 427063790847255 / 79228162514264337593543950336"
    by (rule fl64_eval [where n = 100]) (simp_all add: roundHalfEven_def)
  have s7: "fl64 (- (316894510515358897772741911 / 79228162514264337593543950336)) = - (4611422053354311 / 1152921504606846976)"
    by (rule fl64_eval [where n = 60]) (simp_all add: roundHalfEven_def)
  have s8: "fl64 (21265213354162489927166502284721 / 1329227995784915872903807060280344576) = 2360912948935755 / 147573952589676412928"
    by (rule fl64_eval [where n = 68]) (simp_all add: roundHalfEven_def)
  have s9: "fl64 (2360912948935755 / 295147905179352825856) = 2360912948935755 / 295147905179352825856"
    by (rule fl64_eval [where n = 69]) (simp_all add: roundHalfEven_def)
  have s10: "fl64 (295145544266403890101 / 295147905179352825856) = 9007127205395627 / 9007199254740992"
    by (rule fl64_eval [where n = 53]) (simp_all add: roundHalfEven_def)
  have s11: "fl64 (5573909952452522896187117420025 / 21778071482940061661655974875633165533184) = 2475313266560041 / 9671406556917033397649408"
    by (rule fl64_eval [where n = 84]) (simp_all add: roundHalfEven_def)
  have s12: "fl64 (- (16598619406983976988732177882985 / 91343852333181432387730302044767688728495783936)) = - (7371267777049429 / 40564819207303340847894502572032)"
    by (rule fl64_eval [where n = 105]) (simp_all add: roundHalfEven_def)
  have s13: "fl64 (84681895676777728756907 / 40564819207303340847894502572032) = 9858270138127 / 4722366482869645213696"
    by (rule fl64_eval [where n = 81]) (simp_all add: roundHalfEven_def)
  have s14: "fl64 (23274517623210708341499030885 / 696898287454081973172991196020261297061888) = 10335962140933 / 309485009821345068724781056"
    by (rule fl64_eval [where n = 97]) (simp_all add: roundHalfEven_def)
  have s15: "fl64 (- (85285746158333292283 / 309485009821345068724781056)) = - (2602714421335855 / 9444732965739290427392)"
    by (rule fl64_eval [where n = 74]) (simp_all add: roundHalfEven_def)
  have s16: "fl64 (- (6144782179713650559487672995525 / 1393796574908163946345982392040522594123776)) = - (5457662925779561 / 1237940039285380274899124224)"
    by (rule fl64_eval [where n = 90]) (simp_all add: roundHalfEven_def)
  have s17: "fl64 (30702872485037940493719 / 1237940039285380274899124224) = 7320135232219205 / 295147905179352825856"
    by (rule fl64_eval [where n = 68]) (simp_all add: roundHalfEven_def)
  have s18: "fl64 (17282202057707161002991622174775 / 43556142965880123323311949751266331066368) = 7674839456276299 / 19342813113834066795298816"
    by (rule fl64_eval [where n = 84]) (simp_all add: roundHalfEven_def)
  have s19: "fl64 (- (26865010538788344045749 / 19342813113834066795298816)) = - (6405117640206419 / 4611686018427387904)"
    by (rule fl64_eval [where n = 62]) (simp_all add: roundHalfEven_def)
  have s20: "fl64 (- (15121925176220160867224569611345 / 680564733841876926926749214863536422912)) = - (1678870950729845 / 75557863725914323419136)"
    by (rule fl64_eval [where n = 78]) (simp_all add: roundHalfEven_def)
  have s21: "fl64 (3148242643042140661643 / 75557863725914323419136) = 3002398150484219 / 72057594037927936"
    by (rule fl64_eval [where n = 57]) (simp_all add: roundHalfEven_def)
  have s22: "fl64 (7431875973388917676944586492979 / 696898287454081973172991196020261297061888) = 6600831857451899 / 618970019642690137449562112"
    by (rule fl64_eval [where n = 89]) (simp_all add: roundHalfEven_def)
  have s23: "fl64 (618965068455978315160085371 / 618970019642690137449562112) = 4503563602745841 / 4503599627370496"
    by (rule fl64_eval [where n = 53]) (simp_all add: roundHalfEven_def)
  show ?thesis
    by (simp add: sin64_def trigOctant_def reduceThreshold_def sinKernel_def cosKernel_def trigPoly_def add64_def sub64_def mul64_def Let_def fl64_zero fourOverPi_value PI4A_value PI4B_value PI4C_value sinCoeff_value cosCoeff_value
        s1 s2 s3 s4 s5 s6 s7 s8 s9 s10 s11 s12 s13 s14 s15 s16 s17 s18 s19 s20 s21 s22 s23)
qed

lemma sin64_half_dLon: "sin64 lib (- (7074237752028441 / 4503599627370496)) = - 1"
proof -
  have s1: "fl64 (40564819207303347508583199644619 / 20282409603651670423947251286016) = 4503599627370497 / 2251799813685248"
    by (rule fl64_eval [where n = 51]) (simp_all add: roundHalfEven_def)
  have s2: "fl64 (6588397 / 4194304) = 6588397 / 4194304"
    by (rule fl64_eval [where n = 52]) (simp_all add: roundHalfEven_def)
  have s3: "fl64 (340012313 / 4503599627370496) = 340012313 / 4503599627370496"
    by (rule fl64_eval [where n = 76]) (simp_all add: roundHalfEven_def)
  have s4: "fl64 (1328173 / 17592186044416) = 1328173 / 17592186044416"
    by (rule fl64_eval [where n = 76]) (simp_all add: roundHalfEven_def)
  have s5: "fl64 (25 / 4503599627370496) = 25 / 4503599627370496"
    by (rule fl64_eval [where n = 100]) (simp_all add: roundHalfEven_def)
  have s6: "fl64 (427063790847255 / 79228162514264337593543950336) = 427063790847255 / 79228162514264337593543950336"
    by (rule fl64_eval [where n = 100]) (simp_all add: roundHalfEven_def)
  have s7: "fl64 (12740860263145 / 79228162514264337593543950336) = 12740860263145 / 79228162514264337593543950336"
    by (rule fl64_eval [where n = 105]) (simp_all add: roundHalfEven_def)
  have s8: "fl64 (162329520244987278645291025 / 6277101735386680763835789423207666416102355444464034512896) = 4724410835333031 / 182687704666362864775460604089535377456991567872"
    by (rule fl64_eval [where n = 157]) (simp_all add: roundHalfEven_def)
  have s9: "fl64 (4724410835333031 / 365375409332725729550921208179070754913983135744) = 4724410835333031 / 365375409332725729550921208179070754913983135744"
    by (rule fl64_eval [where n = 158]) (simp_all add: roundHalfEven_def)
  have s10: "fl64 (365375409332725729550921208179066030503147802713 / 365375409332725729550921208179070754913983135744) = 1"
    by (rule fl64_eval [where n = 53]) (simp_all add: roundHalfEven_def)
  have s11: "fl64 (22320057741012147754692679646961 / 33374797436264220037422214158899251790667258161822699530422525122222183215322508594108782608384) = 4956048403006929 / 7410693711188236507108543040556026102609279018600996098525285376506440296955904"
    by (rule fl64_eval [where n = 262]) (simp_all add: roundHalfEven_def)
  have s12: "fl64 (- (33215412458673483496613128572957 / 113078212145816597093331040047546785012958969400039613319782796882727665664)) = - (1843825784202029 / 6277101735386680763835789423207666416102355444464034512896)"
    by (rule fl64_eval [where n = 194]) (simp_all add: roundHalfEven_def)
  have s13: "fl64 (13103889798257277137812815782937736748783384583379 / 6277101735386680763835789423207666416102355444464034512896) = 5047434750082821 / 2417851639229258349412352"
    by (rule fl64_eval [where n = 81]) (simp_all add: roundHalfEven_def)
  have s14: "fl64 (23846155423927748922020366960451 / 441711766194596082395824375185729628956870974218904739530401550323154944) = 5294910160086929 / 98079714615416886934934209737619787751599303819750539264"
    by (rule fl64_eval [where n = 186]) (simp_all add: roundHalfEven_def)
  have s15: "fl64 (- (27028135102728054913602236215889178193366274955375 / 98079714615416886934934209737619787751599303819750539264)) = - (2602714736764387 / 9444732965739290427392)"
    by (rule fl64_eval [where n = 74]) (simp_all add: roundHalfEven_def)
  have s16: "fl64 (- (12296293703650627476432525566997 / 1725436586697640946858688965569256363112777243042596638790631055949824)) = - (5460651354938507 / 766247770432944429179173513575154591809369561091801088)"
    by (rule fl64_eval [where n = 179]) (simp_all add: roundHalfEven_def)
  have s17: "fl64 (19004160963280672953580129339911813604753971028853 / 766247770432944429179173513575154591809369561091801088) = 7320136533427445 / 295147905179352825856"
    by (rule fl64_eval [where n = 68]) (simp_all add: roundHalfEven_def)
  have s18: "fl64 (34583332354641793234230450435795 / 53919893334301279589334030174039261347274288845081144962207220498432) = 3839521184838745 / 5986310706507378352962293074805895248510699696029696"
    by (rule fl64_eval [where n = 173]) (simp_all add: roundHalfEven_def)
  have s19: "fl64 (- (8314320425695213936283848630967323328113904683943 / 5986310706507378352962293074805895248510699696029696)) = - (6405119470030737 / 4611686018427387904)"
    by (rule fl64_eval [where n = 62]) (simp_all add: roundHalfEven_def)
  have s20: "fl64 (- (30260415825815775008059201373847 / 842498333348457493583344221469363458551160763204392890034487820288)) = - (6719162076910429 / 187072209578355573530071658587684226515959365500928)"
    by (rule fl64_eval [where n = 167]) (simp_all add: roundHalfEven_def)
  have s21: "fl64 (7794675399098135483652767892848795681887379500195 / 187072209578355573530071658587684226515959365500928) = 6004799503160651 / 144115188075855872"
    by (rule fl64_eval [where n = 57]) (simp_all add: roundHalfEven_def)
  have s22: "fl64 (29760076988016145096747753150779 / 1067993517960455041197510853084776057301352261178326384973520803911109862890320275011481043468288) = 6608064537342561 / 237142198758023568227473377297792835283496928595231875152809132048206089502588928"
    by (rule fl64_eval [where n = 267]) (simp_all add: roundHalfEven_def)
  have s23: "fl64 (237142198758023568227473377297792835283496928595231875152809132054814154039931489 / 237142198758023568227473377297792835283496928595231875152809132048206089502588928) = 1"
    by (rule fl64_eval [where n = 52]) (simp_all add: roundHalfEven_def)
  show ?thesis
    by (simp add: sin64_def trigOctant_def reduceThreshold_def sinKernel_def cosKernel_def trigPoly_def add64_def sub64_def mul64_def Let_def fl64_zero fourOverPi_value PI4A_value PI4B_value PI4C_value sinCoeff_value cosCoeff_value
        s1 s2 s3 s4 s5 s6 s7 s8 s9 s10 s11 s12 s13 s14 s15 s16 s17 s18 s19 s20 s21 s22 s23)
qed

lemma cos64_local: "cos64 lib (- (7056224384632525 / 4503599627370496)) = 1152852439411591 / 288230376151711744"
proof -
  have s1: "fl64 (40461527655995145515703868383975 / 20282409603651670423947251286016) = 4492131961519335 / 2251799813685248"
    by (rule fl64_eval [where n = 52]) (simp_all add: roundHalfEven_def)
  have s2: "fl64 (6588397 / 4194304) = 6588397 / 4194304"
    by (rule fl64_eval [where n = 52]) (simp_all add: roundHalfEven_def)
  have s3: "fl64 (- (18013027383603 / 4503599627370496)) = - (18013027383603 / 4503599627370496)"
    by (rule fl64_eval [where n = 60]) (simp_all add: roundHalfEven_def)
  have s4: "fl64 (1328173 / 17592186044416) = 1328173 / 17592186044416"
    by (rule fl64_eval [where n = 76]) (simp_all add: roundHalfEven_def)
  have s5: "fl64 (- (18013367395891 / 4503599627370496)) = - (18013367395891 / 4503599627370496)"
    by (rule fl64_eval [where n = 60]) (simp_all add: roundHalfEven_def)
  have s6: "fl64 (427063790847255 / 79228162514264337593543950336) = 427063790847255 / 79228162514264337593543950336"
    by (rule fl64_eval [where n = 100]) (simp_all add: roundHalfEven_def)
  have s7: "fl64 (- (316894510515358897772741911 / 79228162514264337593543950336)) = - (4611422053354311 / 1152921504606846976)"
    by (rule fl64_eval [where n = 60]) (simp_all add: roundHalfEven_def)
  have s8: "fl64 (21265213354162489927166502284721 / 1329227995784915872903807060280344576) = 2360912948935755 / 147573952589676412928"
    by (rule fl64_eval [where n = 68]) (simp_all add: roundHalfEven_def)
  have s9: "fl64 (- (10887166038772100915055391289805 / 170141183460469231731687303715884105728)) = - (2417436481832369 / 37778931862957161709568)"
    by (rule fl64_eval [where n = 76]) (simp_all add: roundHalfEven_def)
  have s10: "fl64 (14518566822841841354663825341455 / 5708990770823839524233143877797980545530986496) = 6447538868511167 / 2535301200456458802993406410752"
    by (rule fl64_eval [where n = 101]) (simp_all add: roundHalfEven_def)
  have s11: "fl64 (- (63511184427966478229057 / 2535301200456458802993406410752)) = - (7571123174186525 / 302231454903657293676544)"
    by (rule fl64_eval [where n = 78]) (simp_all add: roundHalfEven_def)
  have s12: "fl64 (- (17874762739924542605486611701375 / 44601490397061246283071436545296723011960832)) = - (3968994630715215 / 9903520314283042199192993792)"
    by (rule fl64_eval [where n = 94]) (simp_all add: roundHalfEven_def)
  have s13: "fl64 (27291437556651598264497 / 9903520314283042199192993792) = 6506785763895893 / 2361183241434822606848"
    by (rule fl64_eval [where n = 71]) (simp_all add: roundHalfEven_def)
  have s14: "fl64 (15361954765932642020216965354215 / 348449143727040986586495598010130648530944) = 6822078353755431 / 154742504910672534362390528"
    by (rule fl64_eval [where n = 87]) (simp_all add: roundHalfEven_def)
  have s15: "fl64 (- (30702871118314026316505 / 154742504910672534362390528)) = - (7320134906366831 / 36893488147419103232)"
    by (rule fl64_eval [where n = 65]) (simp_all add: roundHalfEven_def)
  have s16: "fl64 (- (17282201288398071784935081942405 / 5444517870735015415413993718908291383296)) = - (3837419557317217 / 1208925819614629174706176)"
    by (rule fl64_eval [where n = 81]) (simp_all add: roundHalfEven_def)
  have s17: "fl64 (10074377992688794244511 / 1208925819614629174706176) = 4803837772697827 / 576460752303423488"
    by (rule fl64_eval [where n = 59]) (simp_all add: roundHalfEven_def)
  have s18: "fl64 (11341442802148995870754851104385 / 85070591730234615865843651857942052864) = 1259153093141507 / 9444732965739290427392"
    by (rule fl64_eval [where n = 75]) (simp_all add: roundHalfEven_def)
  have s19: "fl64 (- (1574120901803451767805 / 9444732965739290427392)) = - (6004794699872787 / 36028797018963968)"
    by (rule fl64_eval [where n = 55]) (simp_all add: roundHalfEven_def)
  have s20: "fl64 (14516209773386126312480958842403 / 1361129467683753853853498429727072845824) = 6446492128280801 / 604462909807314587353088"
    by (rule fl64_eval [where n = 79]) (simp_all add: roundHalfEven_def)
  have s21: "fl64 (- (2417706799016896724767 / 604462909807314587353088)) = - (1152852439411591 / 288230376151711744)"
    by (rule fl64_eval [where n = 60]) (simp_all add: roundHalfEven_def)
  show ?thesis
    by (simp add: cos64_def trigOctant_def reduceThreshold_def sinKernel_def cosKernel_def trigPoly_def add64_def sub64_def mul64_def Let_def fl64_zero fourOverPi_value PI4A_value PI4B_value PI4C_value sinCoeff_value cosCoeff_value
        s1 s2 s3 s4 s5 s6 s7 s8 s9 s10 s11 s12 s13 s14 s15 s16 s17 s18 s19 s20 s21)
qed

lemma cos64_remote: "cos64 lib (7056224384632525 / 4503599627370496) = 1152852439411591 / 288230376151711744"
proof -
  have s1: "fl64 (40461527655995145515703868383975 / 20282409603651670423947251286016) = 4492131961519335 / 2251799813685248"
    by (rule fl64_eval [where n = 52]) (simp_all add: roundHalfEven_def)
  have s2: "fl64 (6588397 / 4194304) = 6588397 / 4194304"
    by (rule fl64_eval [where n = 52]) (simp_all add: roundHalfEven_def)
  have s3: "fl64 (- (18013027383603 / 4503599627370496)) = - (18013027383603 / 4503599627370496)"
    by (rule fl64_eval [where n = 60]) (simp_all add: roundHalfEven_def)
  have s4: "fl64 (1328173 / 17592186044416) = 1328173 / 17592186044416"
    by (rule fl64_eval [where n = 76]) (simp_all add: roundHalfEven_def)
  have s5: "fl64 (- (18013367395891 / 4503599627370496)) = - (18013367395891 / 4503599627370496)"
    by (rule fl64_eval [where n = 60]) (simp_all add: roundHalfEven_def)
  have s6: "fl64 (427063790847255 / 79228162514264337593543950336) = 427063790847255 / 79228162514264337593543950336"
    by (rule fl64_eval [where n = 100]) (simp_all add: roundHalfEven_def)
  have s7: "fl64 (- (316894510515358897772741911 / 79228162514264337593543950336)) = - (4611422053354311 / 1152921504606846976)"
    by (rule fl64_eval [where n = 60]) (simp_all add: roundHalfEven_def)
  have s8: "fl64 (21265213354162489927166502284721 / 1329227995784915872903807060280344576) = 2360912948935755 / 147573952589676412928"
    by (rule fl64_eval [where n = 68]) (simp_all add: roundHalfEven_def)
  have s9: "fl64 (- (10887166038772100915055391289805 / 170141183460469231731687303715884105728)) = - (2417436481832369 / 37778931862957161709568)"
    by (rule fl64_eval [where n = 76]) (simp_all add: roundHalfEven_def)
  have s10: "fl64 (14518566822841841354663825341455 / 5708990770823839524233143877797980545530986496) = 6447538868511167 / 2535301200456458802993406410752"
    by (rule fl64_eval [where n = 101]) (simp_all add: roundHalfEven_def)
  have s11: "fl64 (- (63511184427966478229057 / 2535301200456458802993406410752)) = - (7571123174186525 / 302231454903657293676544)"
    by (rule fl64_eval [where n = 78]) (simp_all add: roundHalfEven_def)
  have s12: "fl64 (- (17874762739924542605486611701375 / 44601490397061246283071436545296723011960832)) = - (3968994630715215 / 9903520314283042199192993792)"
    by (rule fl64_eval [where n = 94]) (simp_all add: roundHalfEven_def)
  have s13: "fl64 (27291437556651598264497 / 9903520314283042199192993792) = 6506785763895893 / 2361183241434822606848"
    by (rule fl64_eval [where n = 71]) (simp_all add: roundHalfEven_def)
  have s14: "fl64 (15361954765932642020216965354215 / 348449143727040986586495598010130648530944) = 6822078353755431 / 154742504910672534362390528"
    by (rule fl64_eval [where n = 87]) (simp_all add: roundHalfEven_def)
  have s15: "fl64 (- (30702871118314026316505 / 154742504910672534362390528)) = - (7320134906366831 / 36893488147419103232)"
    by (rule fl64_eval [where n = 65]) (simp_all add: roundHalfEven_def)
  have s16: "fl64 (- (17282201288398071784935081942405 / 5444517870735015415413993718908291383296)) = - (3837419557317217 / 1208925819614629174706176)"
    by (rule fl64_eval [where n = 81]) (simp_all add: roundHalfEven_def)
  have s17: "fl64 (10074377992688794244511 / 1208925819614629174706176) = 4803837772697827 / 576460752303423488"
    by (rule fl64_eval [where n = 59]) (simp_all add: roundHalfEven_def)
  have s18: "fl64 (11341442802148995870754851104385 / 85070591730234615865843651857942052864) = 1259153093141507 / 9444732965739290427392"
    by (rule fl64_eval [where n = 75]) (simp_all add: roundHalfEven_def)
  have s19: "fl64 (- (1574120901803451767805 / 9444732965739290427392)) = - (6004794699872787 / 36028797018963968)"
    by (rule fl64_eval [where n = 55]) (simp_all add: roundHalfEven_def)
  have s20: "fl64 (14516209773386126312480958842403 / 1361129467683753853853498429727072845824) = 6446492128280801 / 604462909807314587353088"
    by (rule fl64_eval [where n = 79]) (simp_all add: roundHalfEven_def)
  have s21: "fl64 (- (2417706799016896724767 / 604462909807314587353088)) = - (1152852439411591 / 288230376151711744)"
    by (rule fl64_eval [where n = 60]) (simp_all add: roundHalfEven_def)
  show ?thesis
    by (simp add: cos64_def trigOctant_def reduceThreshold_def sinKernel_def cosKernel_def trigPoly_def add64_def sub64_def mul64_def Let_def fl64_zero fourOverPi_value PI4A_value PI4B_value PI4C_value sinCoeff_value cosCoeff_value
        s1 s2 s3 s4 s5 s6 s7 s8 s9 s10 s11 s12 s13 s14 s15 s16 s17 s18 s19 s20 s21)
qed

lemma haversine_term:
  "fadd (fmul (Num (4503563602745841 / 4503599627370496)) (Num (4503563602745841 / 4503599627370496)))
         (fmul (fmul (fmul (Num (1152852439411591 / 288230376151711744)) (Num (1152852439411591 / 288230376151711744))) (Num (- 1))) (Num (- 1)))
     = Num (4503599627370497 / 4503599627370496)"
proof -
  have a1: "fl64 (20282085123977099165514842797281 / 20282409603651670423947251286016) = 9007055156818699 / 9007199254740992"
    by (rule fl64_eval [where n = 53]) (simp_all add: roundHalfEven_def)
  have a2: "fl64 (1329068747057256097610305151281 / 83076749736557242056487941267521536) = 4721800717736557 / 295147905179352825856"
    by (rule fl64_eval [where n = 68]) (simp_all add: roundHalfEven_def)
  have a3: "fl64 (- (4721800717736557 / 295147905179352825856)) = - (4721800717736557 / 295147905179352825856)"
    by (rule fl64_eval [where n = 68]) (simp_all add: roundHalfEven_def)
  have a4: "fl64 (4721800717736557 / 295147905179352825856) = 4721800717736557 / 295147905179352825856"
    by (rule fl64_eval [where n = 68]) (simp_all add: roundHalfEven_def)
  have a5: "fl64 (295147905179352865389 / 295147905179352825856) = 4503599627370497 / 4503599627370496"
    by (rule fl64_eval [where n = 52]) (simp_all add: roundHalfEven_def)
  show ?thesis
    by (simp add: fadd_def fmul_def lift2_def add64_def mul64_def a1 a2 a3 a4 a5)
qed

lemma one_minus_haversine_term: "fsub (Num 1) (Num (4503599627370497 / 4503599627370496)) = Num (- (1 / 4503599627370496))"
proof -
  have a1: "fl64 (- (1 / 4503599627370496)) = - (1 / 4503599627370496)"
    by (rule fl64_eval [where n = 104]) (simp_all add: roundHalfEven_def)
  show ?thesis
    by (simp add: fsub_def lift2_def sub64_def a1)
qed

lemma isLocator_JA00af: "isLocator ''JA00af''"
  by (simp add: isLocator_def letterAR_def letterAX_def digit09_def byte_def)

lemma isLocator_AR09as: "isLocator ''AR09as''"
  by (simp add: isLocator_def letterAR_def letterAX_def digit09_def byte_def)

lemma extract_JA00af:
  "extractCoordinates lib ''JA00af'' = Inr \<lparr>Latitude = - (8977083 / 100000), Longitude = 4167 / 100000\<rparr>"
  unfolding extractCoordinates_def Latitude_locator [OF isLocator_JA00af]
    Longitude_locator [OF isLocator_JA00af]
  by (simp add: letterIndex_def lowerChar_def digitValue_def byte_def round5_def math_Round_def)

lemma extract_AR09as:
  "extractCoordinates lib ''AR09as'' = Inr \<lparr>Latitude = 8977083 / 100000, Longitude = - (17995833 / 100000)\<rparr>"
  unfolding extractCoordinates_def Latitude_locator [OF isLocator_AR09as]
    Longitude_locator [OF isLocator_AR09as]
  by (simp add: letterIndex_def lowerChar_def digitValue_def byte_def round5_def math_Round_def)

text \<open>
  The two locators are opposite points of the globe. The machine's \<open>a\<close> is
  \<open>1 + 2 ^ -52\<close>, \<open>1 - a\<close> is negative, its square root is NaN, and so are the kilometres and
  the miles; no error is returned.
\<close>

lemma short_distance_antipodal: "GetShortPathDistance lib ''JA00af'' ''AR09as'' = Inr (NaN, NaN)"
proof -
  have n: "math_Sqrt (Num (- (1 / 4503599627370496))) = NaN"
    by (rule Sqrt_negative) simp
  show ?thesis
    unfolding GetShortPathDistance_def extract_JA00af extract_AR09as
    by (simp add: Let_def float64Of_coordinates radians_of_coordinates half_differences
        math_Sin_def math_Cos_def lift1_def sin64_half_dLat sin64_half_dLon cos64_local
        cos64_remote haversine_term one_minus_haversine_term n Atan2_NaN arithmetic_NaN Ceil_NaN)
qed

lemma long_distance_antipodal: "GetLongPathDistance lib ''JA00af'' ''AR09as'' = Inr (NaN, NaN)"
  unfolding GetLongPathDistance_def short_distance_antipodal
  by (simp add: Let_def arithmetic_NaN Ceil_NaN)

text \<open>What holds of every result: the miles come from the kilometres returned.\<close>

lemma short_miles_from_km:
  assumes "GetShortPathDistance lib l r = Inr (km, mi)"
  shows "mi = math_Ceil64 (fmul km (float64Of kmToMiles))"
  using assms
  by (auto simp: GetShortPathDistance_def Let_def split: sum.splits)

lemma long_from_short:
  assumes "GetShortPathDistance lib l r = Inr (km, mi)"
  shows "GetLongPathDistance lib l r =
     Inr (math_Ceil64 (fsub (float64Of (2 * PiLiteral * earthRad)) km),
          math_Ceil64 (fmul (math_Ceil64 (fsub (float64Of (2 * PiLiteral * earthRad)) km))
                            (float64Of kmToMiles)))"
  by (simp add: GetLongPathDistance_def assms Let_def)

section \<open>The claims\<close>

text \<open>
  Claim C1. For every valid six-character locator (letters in either case),
  \<open>normalizeGridSquare\<close> gives its canonical form and \<open>LatitudeFromGridSquare\<close> returns
  \<open>field * 10 + square * 1 + sub * (2.5/60) + (2.5/60)/2 - 90\<close> rounded to 5 decimal places,
  with the field from index 1 of the canonical form (A to R), the square from index 3 (a
  digit) and the subsquare from index 5 (a to x); \<open>LongitudeFromGridSquare\<close> returns the
  symmetric formula on the indices 0, 2 and 4 with the widths 20, 2 and 5/60 and the origin
  -180.
\<close>

theorem coordinates_formula:
  assumes "isLocator s"
  shows "normalizeGridSquare lib s = Inr (canonical s)
       \<and> LatitudeFromGridSquare lib s =
           Inr (round5 (fieldIndex (canonical s ! 1) * 10 + digitValue (canonical s ! 3) * 1
                        + subIndex (canonical s ! 5) * (2.5 / 60) + (2.5 / 60) / 2 - 90))
       \<and> LongitudeFromGridSquare lib s =
           Inr (round5 (fieldIndex (canonical s ! 0) * 20 + digitValue (canonical s ! 2) * 2
                        + subIndex (canonical s ! 4) * (5 / 60) + (5 / 60) / 2 - 180))"
  unfolding canonical_indices [OF assms]
  using normalize_locator [OF assms] Latitude_locator [OF assms] Longitude_locator [OF assms]
  by simp

theorem coordinates_formula_witness:
  "\<forall>lib. isLocator ''jn58TD''
     \<and> normalizeGridSquare lib ''jn58TD'' = Inr ''JN58td''
     \<and> LatitudeFromGridSquare lib ''jn58TD'' = Inr (4814583 / 100000)
     \<and> LongitudeFromGridSquare lib ''jn58TD'' = Inr (11625 / 1000)"
proof
  fix lib
  show "isLocator ''jn58TD''
     \<and> normalizeGridSquare lib ''jn58TD'' = Inr ''JN58td''
     \<and> LatitudeFromGridSquare lib ''jn58TD'' = Inr (4814583 / 100000)
     \<and> LongitudeFromGridSquare lib ''jn58TD'' = Inr (11625 / 1000)"
    using coordinates_formula [OF isLocator_jn58TD, of lib] isLocator_jn58TD
    unfolding canonical_jn58TD
    by (simp add: fieldIndex_def subIndex_def digitValue_def byte_def round5_def math_Round_def)
qed

text \<open>
  Claim C2. \<open>validateInput\<close> checks the seven rules in order (length 6; position 0 and 1
  upper case A to R; position 2 and 3 a digit; position 4 and 5 lower case a to x). On a
  string that violates one it returns an error whose message contains the phrase of the
  first rule violated and the string itself; on a string that satisfies all seven it
  returns no error. The length and the positions are those of Go's \<open>len\<close> and index: bytes.
\<close>

theorem validate_reports_first_violation:
  "(case firstViolation s of
      None \<Rightarrow> validateInput lib s = None
    | Some phrase \<Rightarrow>
        (\<exists>msg. validateInput lib s = Some (Error msg) \<and> sublist phrase msg \<and> sublist s msg))"
proof (cases "length s = 6")
  case False
  have e: "'' (must be 6 characters)'' = '' ('' @ ''must be 6 characters'' @ '')''"
    by simp
  have "sublist ''must be 6 characters'' (''invalid gridsquare format: '' @ s @ '' (must be 6 characters)'')"
    unfolding e by (rule sublist_paren)
  with False show ?thesis
    by (simp add: firstViolation_def validateInput_length sublist_mid del: append.simps)
next
  case True
  show ?thesis
    unfolding firstViolation_def validateInput_len6 [OF True] formatError_def
    using True by (simp add: sublist_paren sublist_mid del: append.simps)
qed

theorem validate_reports_first_violation_witness:
  "\<forall>lib. validateInput lib ''JN58td'' = None
     \<and> (\<exists>msg. validateInput lib ''JN5xtd'' = Some (Error msg)
           \<and> sublist ''fourth character must be a digit'' msg \<and> sublist ''JN5xtd'' msg)"
proof
  fix lib
  have a: "firstViolation ''JN58td'' = None"
    by (simp add: firstViolation_def upperAR_def lowerAX_def digit09_def byte_def)
  have b: "firstViolation ''JN5xtd'' = Some ''fourth character must be a digit''"
    by (simp add: firstViolation_def upperAR_def lowerAX_def digit09_def byte_def)
  show "validateInput lib ''JN58td'' = None
     \<and> (\<exists>msg. validateInput lib ''JN5xtd'' = Some (Error msg)
           \<and> sublist ''fourth character must be a digit'' msg \<and> sublist ''JN5xtd'' msg)"
    using validate_reports_first_violation [where s = "''JN58td''" and lib = lib]
      validate_reports_first_violation [where s = "''JN5xtd''" and lib = lib]
    unfolding a b by simp
qed

text \<open>
  Claim C3. \<open>CalculateBearing\<close> returns a value in the range from 0 to 360, 360 excluded.
  The code returns 360 from the origin to the point at latitude 45 and longitude -0.01:
  the angle is brought into the range before it is rounded to one decimal place, and an
  angle of 359.95 or more is rounded up to 360.
\<close>

theorem bearing_reaches_360: "CalculateBearing 0 0 45 (- 0.01) = 360"
  by (rule bearing_just_west_of_north)

text \<open>
  Claim C4. For every pair of valid locators, the long-path bearing equals the short-path
  bearing plus 180, taken modulo 360 into the range from 0 to 360, within 0.1 degree.
\<close>

theorem long_path_bearing_opposite:
  assumes "isLocator l" and "isLocator r"
  shows "\<exists>sp lp. GetShortPathBearing lib l r = Inr sp \<and> GetLongPathBearing lib l r = Inr lp
           \<and> \<bar>lp - mod360 (sp + 180)\<bar> \<le> 0.1"
proof -
  obtain sp where s: "GetShortPathBearing lib l r = Inr sp"
    and p: "GetLongPathBearing lib l r = Inr (math_Round (mod360 (sp + 180) * 10) / 10)"
    using bearings_locators [OF assms] by blast
  have "\<bar>math_Round (mod360 (sp + 180) * 10) - mod360 (sp + 180) * 10\<bar> \<le> 1 / 2"
    by (rule Round_close)
  then have "\<bar>math_Round (mod360 (sp + 180) * 10) / 10 - mod360 (sp + 180)\<bar> \<le> 0.1"
    by linarith
  with s p show ?thesis by blast
qed

theorem long_path_bearing_opposite_witness:
  "\<forall>lib. isLocator ''JN58td'' \<and> isLocator ''FN31pr''
     \<and> (\<exists>sp lp. GetShortPathBearing lib ''JN58td'' ''FN31pr'' = Inr sp
           \<and> GetLongPathBearing lib ''JN58td'' ''FN31pr'' = Inr lp
           \<and> \<bar>lp - mod360 (sp + 180)\<bar> \<le> 0.1)"
  using long_path_bearing_opposite [OF isLocator_JN58td isLocator_FN31pr]
    isLocator_JN58td isLocator_FN31pr
  by blast

text \<open>
  Claim C5. For every pair of valid locators, the short-path km plus the long-path km
  differs from the ceiling of \<open>2 * pi * 6371\<close> by at most 2. On the valid locators \<open>JA00af\<close>
  and \<open>AR09as\<close>, opposite points of the globe, the code returns NaN for both km values and
  no error: the sum is no number.
\<close>

theorem distances_of_antipodes_are_NaN:
  "isLocator ''JA00af'' \<and> isLocator ''AR09as''
   \<and> GetShortPathDistance lib ''JA00af'' ''AR09as'' = Inr (NaN, NaN)
   \<and> GetLongPathDistance lib ''JA00af'' ''AR09as'' = Inr (NaN, NaN)"
  using isLocator_JA00af isLocator_AR09as short_distance_antipodal long_distance_antipodal
  by simp

text \<open>
  Claim C6. For every pair of valid locators, the miles of \<open>GetShortPathDistance\<close> and of
  \<open>GetLongPathDistance\<close> are the ceiling of the kilometres times 0.621371, the kilometres
  being integral. On the valid locators \<open>JA00af\<close> and \<open>AR09as\<close> the code returns kilometres
  that are NaN, not integral, and miles that are NaN, equal to nothing.
\<close>

theorem short_path_of_antipodes_is_NaN:
  "isLocator ''JA00af'' \<and> isLocator ''AR09as''
   \<and> GetShortPathDistance lib ''JA00af'' ''AR09as'' = Inr (NaN, NaN)"
  using isLocator_JA00af isLocator_AR09as short_distance_antipodal
  by simp

text \<open>
  Claim C7. For every valid locator and every string that differs from it only in the case
  of its letters, \<open>LatitudeFromGridSquare\<close> and \<open>LongitudeFromGridSquare\<close> return the same
  results on both.
\<close>

theorem case_insensitive_coordinates:
  assumes "isLocator s" and "sameUpToCase s t"
  shows "LatitudeFromGridSquare lib t = LatitudeFromGridSquare lib s
       \<and> LongitudeFromGridSquare lib t = LongitudeFromGridSquare lib s"
  using case_variant_coordinates [OF assms] by simp

theorem case_insensitive_coordinates_witness:
  "\<forall>lib. isLocator ''JN58td'' \<and> sameUpToCase ''JN58td'' ''jn58TD''
     \<and> LatitudeFromGridSquare lib ''jn58TD'' = LatitudeFromGridSquare lib ''JN58td''
     \<and> LongitudeFromGridSquare lib ''jn58TD'' = LongitudeFromGridSquare lib ''JN58td''"
proof
  fix lib
  have v: "sameUpToCase ''JN58td'' ''jn58TD''"
    by (simp add: sameUpToCase_def lowerChar_def char_eq_byte byte_numeral byte_def)
  show "isLocator ''JN58td'' \<and> sameUpToCase ''JN58td'' ''jn58TD''
     \<and> LatitudeFromGridSquare lib ''jn58TD'' = LatitudeFromGridSquare lib ''JN58td''
     \<and> LongitudeFromGridSquare lib ''jn58TD'' = LongitudeFromGridSquare lib ''JN58td''"
    using case_insensitive_coordinates [OF isLocator_JN58td v, of lib] isLocator_JN58td v
    by blast
qed

text \<open>
  Claim C8. \<open>normalizeGridSquare\<close> returns a string for every input. The code panics on the
  six bytes C3 A9 4E 35 38 74 (the UTF-8 of \<open>eN58t\<close> with an acute accent on the \<open>e\<close>):
  the length test counts six bytes, the conversion to runes gives five runes, and the
  assignment to index 5 is out of range.
\<close>

theorem normalize_panics_on_multibyte:
  "normalizeGridSquare lib [CHR 0xC3, CHR 0xA9, CHR ''N'', CHR ''5'', CHR ''8'', CHR ''t'']
     = Inl (IndexOutOfRange 5 5)"
  by (rule normalize_failing_input)

text \<open>
  Claim C9. When the local locator is invalid, \<open>GetShortPathBearing\<close> and
  \<open>GetShortPathDistance\<close> return an error whose message contains
  \<open>invalid local grid square\<close>. On the invalid local locator of six bytes C3 A9 4E 35 38 74
  the code returns no error: both functions panic in \<open>normalizeGridSquare\<close>.
\<close>

theorem two_locator_operations_panic:
  "GetShortPathBearing lib [CHR 0xC3, CHR 0xA9, CHR ''N'', CHR ''5'', CHR ''8'', CHR ''t''] ''JN58td''
     = Inl (IndexOutOfRange 5 5)
   \<and> GetShortPathDistance lib [CHR 0xC3, CHR 0xA9, CHR ''N'', CHR ''5'', CHR ''8'', CHR ''t''] ''JN58td''
     = Inl (IndexOutOfRange 5 5)"
  by (simp add: GetShortPathBearing_def GetShortPathDistance_def extract_failing_input wrapError_def)

text \<open>
  Claim C10. For every pair of valid locators, the short-path km plus the long-path km is
  exactly the ceiling of \<open>2 * pi * 6371\<close>, 40031. On the valid locators \<open>JA00af\<close> and
  \<open>AR09as\<close> the short-path km is NaN, \<open>GetLongPathDistance\<close> subtracts it from the
  circumference and returns NaN; the sum is not 40031.
\<close>

theorem long_path_of_antipodes_is_NaN:
  "isLocator ''JA00af'' \<and> isLocator ''AR09as''
   \<and> GetLongPathDistance lib ''JA00af'' ''AR09as'' = Inr (NaN, NaN)"
  using isLocator_JA00af isLocator_AR09as long_distance_antipodal
  by simp

end
